theory Spec2Isabelle
  imports Main "HOL-Library.Sublist" "HOL-Library.AList"
begin

section \<open>The HTTP handlers of rss2twtxt\<close>

text \<open>
  The development embeds \<^verbatim>\<open>handlers.go\<close>: the five handlers \<^verbatim>\<open>IndexHandler\<close>,
  \<^verbatim>\<open>FeedHandler\<close>, \<^verbatim>\<open>MediaHandler\<close>, \<^verbatim>\<open>AvatarHandler\<close> and \<^verbatim>\<open>FeedsHandler\<close>
  (with \<^verbatim>\<open>WeAreFeedsHandler\<close>). A handler is a function from the request and the
  response writer it is given to the response writer it leaves behind. What the handlers
  call in the Go library (\<^verbatim>\<open>net/http\<close>, \<^verbatim>\<open>path/filepath\<close>, \<^verbatim>\<open>time\<close>, \<^verbatim>\<open>strconv\<close>) is
  modelled by its documented behaviour; what they call in packages whose result is opaque
  here (file serving, identicons, templates, content negotiation, feed validation) is a
  field of the record \<open>env\<close>, so every theorem holds for each behaviour of those.
\<close>

subsection \<open>Strings and numbers\<close>

text \<open>A Go map read \<^verbatim>\<open>m[k]\<close> and \<^verbatim>\<open>Header.Get(k)\<close>: the empty string for a missing key.\<close>

definition go_get :: "(string \<rightharpoonup> string) \<Rightarrow> string \<Rightarrow> string" where
  "go_get m k = (case m k of None \<Rightarrow> [] | Some v \<Rightarrow> v)"

text \<open>\<^verbatim>\<open>strings.Contains(s, substr)\<close>.\<close>

fun strings_Contains :: "string \<Rightarrow> string \<Rightarrow> bool" where
  "strings_Contains [] substr = (substr = [])"
| "strings_Contains (c # s) substr = (prefix substr (c # s) \<or> strings_Contains s substr)"

definition quote :: string where
  "quote = [CHR 0x22]"

definition digit_char :: "nat \<Rightarrow> char" where
  "digit_char d = char_of (48 + d)"

definition is_digit :: "char \<Rightarrow> bool" where
  "is_digit c = (48 \<le> (of_char c :: nat) \<and> (of_char c :: nat) \<le> 57)"

definition digit_val :: "char \<Rightarrow> nat" where
  "digit_val c = of_char c - 48"

text \<open>Decimal digits of a non-negative number, most significant first.\<close>

fun FormatUint :: "nat \<Rightarrow> string" where
  "FormatUint n = (if n < 10 then [digit_char n] else FormatUint (n div 10) @ [digit_char (n mod 10)])"

declare FormatUint.simps [simp del]

text \<open>\<^verbatim>\<open>fmt.Sprintf("%d", x)\<close>.\<close>

definition Sprintf_d :: "int \<Rightarrow> string" where
  "Sprintf_d x = (if x < 0 then ''-'' @ FormatUint (nat (- x)) else FormatUint (nat x))"

definition ParseUint :: "string \<Rightarrow> nat option" where
  "ParseUint s = (if s = [] \<or> \<not> list_all is_digit s then None
                  else Some (foldl (\<lambda>a c. a * 10 + digit_val c) 0 s))"

text \<open>\<^verbatim>\<open>strconv.ParseInt(s, 10, 64)\<close>: an optional sign, then digits; \<open>None\<close> is the error
  (syntax or range).\<close>

definition ParseInt :: "string \<Rightarrow> int option" where
  "ParseInt s =
     (case s of
        [] \<Rightarrow> None
      | c # rest \<Rightarrow>
          let neg = (c = CHR ''-'');
              s0 = (if c = CHR ''+'' \<or> c = CHR ''-'' then rest else s)
          in (case ParseUint s0 of
                None \<Rightarrow> None
              | Some un \<Rightarrow>
                  if \<not> neg \<and> 2 ^ 63 \<le> int un then None
                  else if neg \<and> 2 ^ 63 < int un then None
                  else Some (if neg then - int un else int un)))"

text \<open>Go's integer division truncates towards zero.\<close>

definition go_div :: "int \<Rightarrow> int \<Rightarrow> int" where
  "go_div a b = sgn a * sgn b * (\<bar>a\<bar> div \<bar>b\<bar>)"

subsection \<open>Paths (\<^verbatim>\<open>path/filepath\<close>, Unix)\<close>

fun split_slash :: "string \<Rightarrow> string list" where
  "split_slash [] = [[]]"
| "split_slash (c # cs) =
     (if c = CHR ''/'' then [] # split_slash cs
      else (case split_slash cs of [] \<Rightarrow> [[c]] | e # es \<Rightarrow> (c # e) # es))"

fun join_slash :: "string list \<Rightarrow> string" where
  "join_slash [] = []"
| "join_slash [e] = e"
| "join_slash (e # es) = e @ ''/'' @ join_slash es"

text \<open>One element of the path met by \<^verbatim>\<open>Clean\<close>; the stack holds the elements kept so far,
  the last one first. A \<^verbatim>\<open>..\<close> removes the element before it, is dropped at the root, and
  is kept at the start of a relative path.\<close>

definition clean_step :: "bool \<Rightarrow> string list \<Rightarrow> string \<Rightarrow> string list" where
  "clean_step rooted st e =
     (if e = ''..'' then
        (case st of
           [] \<Rightarrow> if rooted then [] else [''..'']
         | t # ts \<Rightarrow> if t = ''..'' then ''..'' # st else ts)
      else e # st)"

text \<open>\<^verbatim>\<open>filepath.Clean\<close>: the shortest path equivalent to the given one by lexical
  processing (no empty or \<^verbatim>\<open>.\<close> element, inner \<^verbatim>\<open>..\<close> resolved).\<close>

definition filepath_Clean :: "string \<Rightarrow> string" where
  "filepath_Clean path =
     (let rooted = (path \<noteq> [] \<and> hd path = CHR ''/'');
          elems = filter (\<lambda>e. e \<noteq> [] \<and> e \<noteq> ''.'') (split_slash path);
          out = (if rooted then ''/'' else []) @ join_slash (rev (foldl (clean_step rooted) [] elems))
      in if out = [] then ''.'' else out)"

text \<open>\<^verbatim>\<open>filepath.Join\<close>: the elements from the first non-empty one on, joined by slashes
  and cleaned; the empty string when every element is empty.\<close>

definition filepath_Join :: "string list \<Rightarrow> string" where
  "filepath_Join elem =
     (case dropWhile (\<lambda>e. e = []) elem of
        [] \<Rightarrow> []
      | es \<Rightarrow> filepath_Clean (join_slash es))"

text \<open>\<^verbatim>\<open>filepath.Base\<close>: the last element of the path.\<close>

definition filepath_Base :: "string \<Rightarrow> string" where
  "filepath_Base path =
     (if path = [] then ''.''
      else let p = rev (dropWhile (\<lambda>c. c = CHR ''/'') (rev path)) in
        if p = [] then ''/'' else last (split_slash p))"

subsection \<open>Time (\<^verbatim>\<open>time.Time\<close> and \<^verbatim>\<open>time.RFC3339\<close>)\<close>

text \<open>A time as \<^verbatim>\<open>Date()\<close>, \<^verbatim>\<open>Clock()\<close>, \<^verbatim>\<open>Nanosecond()\<close> and \<^verbatim>\<open>Zone()\<close> give it: the civil
  fields in the time's location, and the offset of that location in seconds east of UTC.\<close>

record time =
  Year :: int
  Month :: int
  Day :: int
  Hour :: int
  Minute :: int
  Second :: int
  Nanosecond :: int
  Offset :: int

text \<open>\<^verbatim>\<open>appendInt\<close> of package time: the decimal form of \<open>x\<close>, padded with zeros to \<open>width\<close>
  digits, after a minus sign when negative.\<close>

definition appendInt :: "int \<Rightarrow> nat \<Rightarrow> string" where
  "appendInt x width =
     (let ds = FormatUint (nat \<bar>x\<bar>)
      in (if x < 0 then ''-'' else []) @ replicate (width - length ds) (CHR ''0'') @ ds)"

text \<open>The layout element \<^verbatim>\<open>Z07:00\<close>: \<^verbatim>\<open>Z\<close> for offset zero, else the signed offset in hours
  and minutes.\<close>

definition zone_suffix :: "int \<Rightarrow> string" where
  "zone_suffix offset =
     (if offset = 0 then ''Z''
      else let zone = go_div offset 60 in
        (if zone < 0 then ''-'' else ''+'')
          @ appendInt (\<bar>zone\<bar> div 60) 2 @ '':'' @ appendInt (\<bar>zone\<bar> mod 60) 2)"

text \<open>\<^verbatim>\<open>t.Format(time.RFC3339)\<close>, layout \<^verbatim>\<open>2006-01-02T15:04:05Z07:00\<close>: the nanoseconds are
  not printed.\<close>

definition Format_RFC3339 :: "time \<Rightarrow> string" where
  "Format_RFC3339 t =
     appendInt (Year t) 4 @ ''-'' @ appendInt (Month t) 2 @ ''-'' @ appendInt (Day t) 2
       @ ''T'' @ appendInt (Hour t) 2 @ '':'' @ appendInt (Minute t) 2 @ '':''
       @ appendInt (Second t) 2 @ zone_suffix (Offset t)"

subsection \<open>Requests\<close>

text \<open>\<open>Vars\<close> is \<^verbatim>\<open>mux.Vars(r)\<close>, \<open>Form\<close> what \<^verbatim>\<open>r.FormValue\<close> reads.\<close>

record request =
  Method :: string
  RequestURI :: string
  Header :: "string \<rightharpoonup> string"
  Vars :: "string \<rightharpoonup> string"
  Form :: "string \<rightharpoonup> string"

subsection \<open>The artifact store\<close>

datatype io_mode = ReadsOk | OpenFails | ReadFailsAfter nat

record osfile =
  MTime :: time
  Content :: string
  Mode :: io_mode

text \<open>A directory is a snapshot of the files by path. The file system is a sequence of
  snapshots: the \<open>n\<close>-th call of a handler on the file system sees \<open>fs n\<close>, so a file may
  change or vanish between two calls.\<close>

type_synonym dir = "string \<Rightarrow> osfile option"
type_synonym filesystem = "nat \<Rightarrow> dir"

record fileinfo =
  Size :: int
  ModTime :: time

text \<open>Modelled from the spec: \<^verbatim>\<open>FileExists\<close> is not in the source; it is the store's
  \<^verbatim>\<open>locate(kind, name) -> (exists: bool)\<close>.\<close>

definition FileExists :: "dir \<Rightarrow> string \<Rightarrow> bool" where
  "FileExists d path = (d path \<noteq> None)"

text \<open>\<^verbatim>\<open>os.Stat\<close> and \<^verbatim>\<open>os.Open\<close>; \<open>None\<close> is the error.\<close>

definition os_Stat :: "dir \<Rightarrow> string \<Rightarrow> fileinfo option" where
  "os_Stat d path =
     (case d path of
        None \<Rightarrow> None
      | Some f \<Rightarrow> Some \<lparr>Size = int (length (Content f)), ModTime = MTime f\<rparr>)"

definition os_Open :: "dir \<Rightarrow> string \<Rightarrow> osfile option" where
  "os_Open d path =
     (case d path of
        None \<Rightarrow> None
      | Some f \<Rightarrow> if Mode f = OpenFails then None else Some f)"

text \<open>The calls a handler makes on its collaborators, in order.\<close>

datatype event =
    FsExists string
  | FsStat string
  | FsOpen string
  | FsServeFile string
  | Streamed string
  | Generated string

subsection \<open>The response writer (\<^verbatim>\<open>http.ResponseWriter\<close> of the server)\<close>

text \<open>\<open>header\<close> is the map \<^verbatim>\<open>w.Header()\<close>; \<open>sent\<close> is its copy taken when the status line
  is committed, the headers of the response. \<open>calls\<close> records the collaborator calls.\<close>

record response =
  req_method :: string
  header :: "string \<rightharpoonup> string"
  wroteHeader :: bool
  status :: nat
  sent :: "string \<rightharpoonup> string"
  contentLength :: "nat option"
  written :: nat
  body :: string
  calls :: "event list"

definition new_response :: "request \<Rightarrow> response" where
  "new_response r =
     \<lparr>req_method = Method r, header = Map.empty, wroteHeader = False, status = 0,
      sent = Map.empty, contentLength = None, written = 0, body = [], calls = []\<rparr>"

definition call :: "event \<Rightarrow> response \<Rightarrow> response" where
  "call e w = w\<lparr>calls := calls w @ [e]\<rparr>"

definition Header_Set :: "string \<Rightarrow> string \<Rightarrow> response \<Rightarrow> response" where
  "Header_Set k v w = w\<lparr>header := (header w)(k \<mapsto> v)\<rparr>"

text \<open>\<^verbatim>\<open>WriteHeader\<close>: the first call commits status and headers, later calls are ignored.
  A valid \<^verbatim>\<open>Content-Length\<close> is remembered as the declared length.\<close>

definition WriteHeader :: "nat \<Rightarrow> response \<Rightarrow> response" where
  "WriteHeader code w =
     (if wroteHeader w then w
      else
        let w = w\<lparr>wroteHeader := True, status := code, sent := header w\<rparr>;
            cl = go_get (header w) ''Content-Length''
        in if cl \<noteq> [] then
             (case ParseInt cl of
                None \<Rightarrow> w\<lparr>header := (header w)(''Content-Length'' := None)\<rparr>
              | Some v \<Rightarrow>
                  if 0 \<le> v then w\<lparr>contentLength := Some (nat v)\<rparr>
                  else w\<lparr>header := (header w)(''Content-Length'' := None)\<rparr>)
           else w)"

definition bodyAllowedForStatus :: "nat \<Rightarrow> bool" where
  "bodyAllowedForStatus st = (\<not> (100 \<le> st \<and> st \<le> 199) \<and> st \<noteq> 204 \<and> st \<noteq> 304)"

text \<open>\<^verbatim>\<open>Write\<close>: commits status 200 when none is committed; fails with
  \<^verbatim>\<open>ErrBodyNotAllowed\<close> when the status has no body and with \<^verbatim>\<open>ErrContentLength\<close> when
  the data exceeds the declared length; the server drops the body of a reply to HEAD.
  The flag returned is the error.\<close>

definition Write :: "string \<Rightarrow> response \<Rightarrow> response \<times> bool" where
  "Write data w =
     (let w = (if wroteHeader w then w else WriteHeader 200 w) in
      if data = [] then (w, False)
      else if \<not> bodyAllowedForStatus (status w) then (w, True)
      else
        let w = w\<lparr>written := written w + length data\<rparr> in
        if (case contentLength w of None \<Rightarrow> False | Some n \<Rightarrow> n < written w) then (w, True)
        else if req_method w = ''HEAD'' then (w, False)
        else (w\<lparr>body := body w @ data\<rparr>, False))"

text \<open>\<^verbatim>\<open>http.Error(w, error, code)\<close>.\<close>

definition http_Error :: "response \<Rightarrow> string \<Rightarrow> nat \<Rightarrow> response" where
  "http_Error w error code =
     (let w = Header_Set ''Content-Type'' ''text/plain; charset=utf-8'' w;
          w = Header_Set ''X-Content-Type-Options'' ''nosniff'' w;
          w = WriteHeader code w
      in fst (Write (error @ [CHR 0x0A]) w))"

text \<open>When the handler returns, the server commits status 200 if nothing was committed.\<close>

definition finishRequest :: "response \<Rightarrow> response" where
  "finishRequest w = (if wroteHeader w then w else WriteHeader 200 w)"

text \<open>\<^verbatim>\<open>io.Copy(w, f)\<close>: what can be read of the file is written, and nothing is written
  when nothing can be read; the flag is the error of the read or of the write.\<close>

definition io_Copy :: "response \<Rightarrow> osfile \<Rightarrow> response \<times> bool" where
  "io_Copy w f =
     (let (data, rerr) = (case Mode f of
                            ReadFailsAfter n \<Rightarrow> (take n (Content f), True)
                          | _ \<Rightarrow> (Content f, False))
      in if data = [] then (w, rerr)
         else let (w, werr) = Write data w in (w, werr \<or> rerr))"

subsection \<open>Configuration and collaborators\<close>

text \<open>An image, kept as its pixel values.\<close>

type_synonym image = "nat list"

record Feed =
  Name :: string
  URL :: string

text \<open>\<^verbatim>\<open>app.conf\<close>: the root directory of the store and the feed registry, a Go map from
  name to URL, kept as an association list.\<close>

record conf =
  Root :: string
  Feeds :: "(string \<times> string) list"

datatype ctx =
    TitleCtx string
  | MessageCtx string string
  | FeedsCtx string "Feed list"

text \<open>The constants \<^verbatim>\<open>mediaDir\<close> and \<^verbatim>\<open>avatarResolution\<close> and the functions of other
  packages. \<open>Execute name ctx\<close> is what the template of that name writes for \<open>ctx\<close>, and
  whether parsing or executing it failed; \<open>TimeFormat t\<close> is
  \<^verbatim>\<open>t.UTC().Format(http.TimeFormat)\<close>.\<close>

record env =
  mediaDir :: string
  avatarResolution :: nat
  TimeFormat :: "time \<Rightarrow> string"
  ServeFile :: "request \<Rightarrow> filesystem \<Rightarrow> string \<Rightarrow> response \<Rightarrow> response"
  ServeContent :: "request \<Rightarrow> string \<Rightarrow> time \<Rightarrow> osfile \<Rightarrow> response \<Rightarrow> response"
  Identicon :: "string \<Rightarrow> nat \<Rightarrow> nat \<Rightarrow> image"
  png_Encode :: "image \<Rightarrow> string"
  PreferredContentTypeLike :: "(string \<rightharpoonup> string) \<Rightarrow> string \<Rightarrow> string"
  ValidateFeed :: "conf \<Rightarrow> string \<Rightarrow> Feed option"
  Execute :: "string \<Rightarrow> ctx \<Rightarrow> string \<times> bool"

text \<open>A function of the library works on the response writer: the record of calls and the
  request's method are not its to change.\<close>

definition library :: "(response \<Rightarrow> response) \<Rightarrow> response \<Rightarrow> response" where
  "library f w = (f w)\<lparr>req_method := req_method w, calls := calls w\<rparr>"

subsection \<open>Entity tags\<close>

text \<open>\<^verbatim>\<open>fmt.Sprintf("W/\"%s-%s\"", r.RequestURI, fileInfo.ModTime().Format(time.RFC3339))\<close>
  and \<^verbatim>\<open>fmt.Sprintf("W/\"%s\"", r.RequestURI)\<close>.\<close>

definition timestamp_etag :: "string \<Rightarrow> time \<Rightarrow> string" where
  "timestamp_etag uri t = ''W/'' @ quote @ uri @ ''-'' @ Format_RFC3339 t @ quote"

definition name_etag :: "string \<Rightarrow> string" where
  "name_etag uri = ''W/'' @ quote @ uri @ quote"

subsection \<open>The handlers\<close>

definition FeedHandler :: "env \<Rightarrow> conf \<Rightarrow> filesystem \<Rightarrow> response \<Rightarrow> request \<Rightarrow> response" where
  "FeedHandler env c fs w r =
     (if Method r = ''HEAD'' \<or> Method r = ''GET'' then
        let w = Header_Set ''Content-Type'' ''text/plain; charset=utf-8'' w;
            name = go_get (Vars r) ''name''
        in if name = [] then http_Error w ''Bad Request'' 400
        else
          let filename = filepath_Join [Root c, name @ ''.txt''];
              w = call (FsExists filename) w
          in if \<not> FileExists (fs 0) filename then http_Error w ''Feed not found'' 404
          else
            let w = call (FsStat filename) w in
            (case os_Stat (fs 1) filename of
              None \<Rightarrow> http_Error w ''Internal Server Error'' 500
            | Some fileInfo \<Rightarrow>
                let w = Header_Set ''Last-Modified'' (TimeFormat env (ModTime fileInfo)) w;
                    w = Header_Set ''Content-Length'' (Sprintf_d (Size fileInfo)) w
                in if Method r = ''HEAD'' then w
                else library (ServeFile env r (\<lambda>n. fs (n + 2)) filename)
                       (call (FsServeFile filename) w))
      else http_Error w ''Method Not Allowed'' 405)"

text \<open>After \<^verbatim>\<open>http.ServeContent\<close> the handler does not return: it runs on into the final
  \<^verbatim>\<open>http.Error\<close>.\<close>

definition MediaHandler :: "env \<Rightarrow> conf \<Rightarrow> filesystem \<Rightarrow> response \<Rightarrow> request \<Rightarrow> response" where
  "MediaHandler env c fs w r =
     (if Method r = ''HEAD'' \<or> Method r = ''GET'' then
        let w = Header_Set ''Content-Type'' ''text/plain'' w;
            name = go_get (Vars r) ''name''
        in if name = [] then http_Error w ''Bad Request'' 400
        else
          let w = Header_Set ''Content-Type'' ''image/png'' w;
              fn = filepath_Join [Root c, mediaDir env, name @ ''.png''];
              w = call (FsExists fn) w
          in if \<not> FileExists (fs 0) fn then http_Error w ''Media Not Found'' 404
          else
            let w = call (FsStat fn) w in
            (case os_Stat (fs 1) fn of
              None \<Rightarrow> http_Error w ''Internal Server Error'' 500
            | Some fileInfo \<Rightarrow>
                let etag = timestamp_etag (RequestURI r) (ModTime fileInfo);
                    match = go_get (Header r) ''If-None-Match''
                in if match \<noteq> [] \<and> strings_Contains match etag then WriteHeader 304 w
                else
                  let w = call (FsOpen fn) w in
                  (case os_Open (fs 2) fn of
                     None \<Rightarrow> http_Error w ''Internal Server Error'' 500
                   | Some f \<Rightarrow>
                       let w = Header_Set ''Etag'' etag w;
                           w = Header_Set ''Cache-Control'' ''public, max-age=7776000'' w
                       in if Method r = ''HEAD'' then w
                       else
                         let w = library (ServeContent env r (filepath_Base fn) (ModTime fileInfo) f)
                                   (call (Streamed fn) w)
                         in http_Error w ''Method Not Allowed'' 405))
      else http_Error w ''Method Not Allowed'' 405)"

definition AvatarHandler :: "env \<Rightarrow> conf \<Rightarrow> filesystem \<Rightarrow> response \<Rightarrow> request \<Rightarrow> response" where
  "AvatarHandler env c fs w r =
     (if Method r = ''HEAD'' \<or> Method r = ''GET'' then
        let w = Header_Set ''Content-Type'' ''image/png'' w;
            w = Header_Set ''Cache-Control'' ''public, no-cache, must-revalidate'' w;
            name = go_get (Vars r) ''name''
        in if name = [] then http_Error w ''Bad Request'' 400
        else
          let filename = filepath_Join [Root c, name @ ''.txt''];
              w = call (FsExists filename) w
          in if \<not> FileExists (fs 0) filename then http_Error w ''Feed not found'' 404
          else
            let fn = filepath_Join [Root c, name @ ''.png''];
                w = call (FsStat fn) w
            in (case os_Stat (fs 1) fn of
              Some fileInfo \<Rightarrow>
                let etag = timestamp_etag (RequestURI r) (ModTime fileInfo);
                    match = go_get (Header r) ''If-None-Match''
                in if match \<noteq> [] \<and> strings_Contains match etag then WriteHeader 304 w
                else
                  let w = Header_Set ''Etag'' etag w in
                  if Method r = ''HEAD'' then w
                  else
                    let w = call (FsOpen fn) w in
                    (case os_Open (fs 2) fn of
                       None \<Rightarrow> http_Error w ''Internal Server Error'' 500
                     | Some f \<Rightarrow>
                         let w = call (FsStat fn) w in
                         (case os_Stat (fs 3) fn of
                            None \<Rightarrow> http_Error w ''Internal Server Error'' 500
                          | Some fileInfo \<Rightarrow>
                              let w = Header_Set ''Content-Length'' (Sprintf_d (Size fileInfo)) w in
                              if Method r = ''HEAD'' then w
                              else
                                let (w, err) = io_Copy (call (Streamed fn) w) f in
                                if err then http_Error w ''Internal Server Error'' 500 else w))
            | None \<Rightarrow>
                let etag = name_etag (RequestURI r);
                    match = go_get (Header r) ''If-None-Match''
                in if match \<noteq> [] \<and> strings_Contains match etag then WriteHeader 304 w
                else
                  let w = Header_Set ''Etag'' etag w;
                      w = call (Generated name) w;
                      buf = png_Encode env (Identicon env name (avatarResolution env) 12);
                      w = Header_Set ''Content-Length'' (Sprintf_d (int (length buf))) w
                  in if Method r = ''HEAD'' then w
                  else fst (Write buf w))
      else http_Error w ''Method Not Allowed'' 405)"

text \<open>What the client receives: the handler run on a fresh response writer, then the
  server's commit.\<close>

definition serve :: "(response \<Rightarrow> request \<Rightarrow> response) \<Rightarrow> request \<Rightarrow> response" where
  "serve handler r = finishRequest (handler (new_response r) r)"

subsection \<open>Reading a response\<close>


text \<open>The headers of the response: those committed, or those that would be committed now.\<close>

definition response_headers :: "response \<Rightarrow> string \<rightharpoonup> string" where
  "response_headers w = (if wroteHeader w then sent w else header w)"

text \<open>The status of the response: that committed, or the 200 the server commits at the end.\<close>

definition response_status :: "response \<Rightarrow> nat" where
  "response_status w = (if wroteHeader w then status w else 200)"

text \<open>A function on the response writer leaves the header \<open>k\<close> of the response as it is.\<close>

definition keeps_header :: "(response \<Rightarrow> response) \<Rightarrow> string \<Rightarrow> bool" where
  "keeps_header f k = (\<forall>w. response_headers (f w) k = response_headers w k)"

text \<open>The number of seconds of a \<^verbatim>\<open>max-age\<close> directive that follows \<^verbatim>\<open>public\<close>.\<close>

definition max_age :: "string \<Rightarrow> nat option" where
  "max_age v = (if prefix ''public, max-age='' v then ParseUint (drop 16 v) else None)"

subsection \<open>The feed list and registration\<close>

text \<open>\<^verbatim>\<open>render\<close>: the template's output is written to \<open>w\<close>; the flag is the error of parsing,
  executing or writing. A template that produces nothing writes nothing.\<close>

definition render :: "env \<Rightarrow> string \<Rightarrow> ctx \<Rightarrow> response \<Rightarrow> response \<times> bool" where
  "render env name ctx w =
     (let (out, failed) = Execute env name ctx in
      if out = [] then (w, failed)
      else let (w, werr) = Write out w in (w, failed \<or> werr))"

text \<open>\<^verbatim>\<open>renderMessage\<close> takes the status and does not use it.\<close>

definition renderMessage :: "env \<Rightarrow> response \<Rightarrow> nat \<Rightarrow> string \<Rightarrow> string \<Rightarrow> response \<times> bool" where
  "renderMessage env w code title message = render env ''message'' (MessageCtx title message) w"

text \<open>Modelled from the spec: \<^verbatim>\<open>app.GetFeeds\<close> is not in the source; it is the registry's
  \<^verbatim>\<open>list() -> sequence of entries\<close>.\<close>

definition GetFeeds :: "conf \<Rightarrow> Feed list" where
  "GetFeeds c = map (\<lambda>(n, u). \<lparr>Name = n, URL = u\<rparr>) (Feeds c)"

text \<open>Modelled from the spec: \<^verbatim>\<open>conf.Save\<close> is not in the source; it is the durable
  persistence of the full registry, which may fail. \<open>disk\<close> is the error of the disk, if
  any; the durable registry is the second component.\<close>

definition Save :: "string option \<Rightarrow> conf \<Rightarrow> (string \<times> string) list \<Rightarrow> string option \<times> (string \<times> string) list" where
  "Save disk c durable = (case disk of None \<Rightarrow> (None, Feeds c) | Some e \<Rightarrow> (Some e, durable))"

text \<open>The steps that follow each message of \<^verbatim>\<open>IndexHandler\<close>:
  \<^verbatim>\<open>if err := renderMessage(w, code, title, msg); err != nil { http.Error(w, ..., 500) }\<close>.\<close>

definition message_page ::
    "env \<Rightarrow> response \<Rightarrow> nat \<Rightarrow> string \<Rightarrow> string \<Rightarrow> response" where
  "message_page env w code title message =
     (let (w, err) = renderMessage env w code title message in
      if err then http_Error w ''Internal Server Error'' 500 else w)"

text \<open>The outcome of \<^verbatim>\<open>IndexHandler\<close> is the response with the registry in memory and the
  durable one.\<close>

definition IndexHandler ::
    "env \<Rightarrow> string option \<Rightarrow> conf \<times> (string \<times> string) list \<Rightarrow> response \<Rightarrow> request
      \<Rightarrow> response \<times> conf \<times> (string \<times> string) list" where
  "IndexHandler env disk app w r =
     (let (c, durable) = app in
      if Method r = ''HEAD'' \<or> Method r = ''GET'' then
        let w = Header_Set ''Content-Type'' ''text/html'' w;
            ctx = TitleCtx ''RSS/Atom to twtxt feed aggregator service''
        in if Method r = ''HEAD'' then (w, c, durable)
        else
          let (w, err) = render env ''index'' ctx w in
          (if err then http_Error w ''Internal Server Error'' 500 else w, c, durable)
      else if Method r = ''POST'' then
        let url = go_get (Form r) ''url'' in
        if url = [] then (message_page env w 400 ''Error'' ''No url supplied'', c, durable)
        else
          (case ValidateFeed env c url of
             None \<Rightarrow>
               (message_page env w 400 ''Error''
                  (''Unable to find a valid RSS/Atom feed for: '' @ url), c, durable)
           | Some feed \<Rightarrow>
               if map_of (Feeds c) (Name feed) \<noteq> None then
                 (message_page env w 409 ''Error'' ''Feed alreadyd exists'', c, durable)
               else
                 let c = c\<lparr>Feeds := AList.update (Name feed) (URL feed) (Feeds c)\<rparr> in
                 (case Save disk c durable of
                    (Some e, durable) \<Rightarrow>
                      (message_page env w 500 ''Error'' (''Could not save feed: '' @ e), c, durable)
                  | (None, durable) \<Rightarrow>
                      (message_page env w 201 ''Success''
                         (''Feed successfully added '' @ Name feed @ '': '' @ URL feed),
                       c, durable)))
      else (http_Error w ''Method Not Allowed'' 405, c, durable))"

definition WeAreFeedsHandler :: "conf \<Rightarrow> response \<Rightarrow> request \<Rightarrow> response" where
  "WeAreFeedsHandler c w r =
     (if Method r = ''HEAD'' \<or> Method r = ''GET'' then
        let w = Header_Set ''Content-Type'' ''text/plain'' w in
        if Method r = ''HEAD'' then w
        else foldl (\<lambda>w feed. fst (Write (Name feed @ '' '' @ URL feed @ [CHR 0x0A]) w)) w (GetFeeds c)
      else http_Error w ''Method Not Allowed'' 405)"

definition FeedsHandler :: "env \<Rightarrow> conf \<Rightarrow> response \<Rightarrow> request \<Rightarrow> response" where
  "FeedsHandler env c w r =
     (if Method r = ''HEAD'' \<or> Method r = ''GET'' then
        if PreferredContentTypeLike env (Header r) ''text/plain'' = ''text/plain''
        then WeAreFeedsHandler c w r
        else
          let w = Header_Set ''Content-Type'' ''text/html'' w;
              ctx = FeedsCtx ''Available twtxt feeds'' (GetFeeds c)
          in if Method r = ''HEAD'' then w
          else
            let (w, err) = render env ''feeds'' ctx w in
            if err then http_Error w ''Internal Server Error'' 500 else w
      else http_Error w ''Method Not Allowed'' 405)"

subsection \<open>\<^verbatim>\<open>http.ServeContent\<close> of the Go library\<close>

text \<open>
  The handlers hand the body of a media file to \<^verbatim>\<open>http.ServeContent\<close>, which evaluates
  the request's preconditions itself before it writes. The definitions below follow
  \<^verbatim>\<open>net/http/fs.go\<close> for a request with no \<^verbatim>\<open>Range\<close>, \<^verbatim>\<open>If-Match\<close>,
  \<^verbatim>\<open>If-Unmodified-Since\<close> or \<^verbatim>\<open>If-Modified-Since\<close> header and a file whose modification
  time is not the zero time: \<^verbatim>\<open>setLastModified\<close>, \<^verbatim>\<open>checkIfNoneMatch\<close> with \<^verbatim>\<open>scanETag\<close>
  and \<^verbatim>\<open>etagWeakMatch\<close>, \<^verbatim>\<open>writeNotModified\<close>, and the reply with status 200. They are one
  value of the field \<open>ServeContent\<close> of \<open>env\<close>.
\<close>

definition isASCIISpace :: "char \<Rightarrow> bool" where
  "isASCIISpace c = (c = CHR '' '' \<or> c = CHR 0x09 \<or> c = CHR 0x0A \<or> c = CHR 0x0D)"

definition TrimString :: "string \<Rightarrow> string" where
  "TrimString s = rev (dropWhile isASCIISpace (rev (dropWhile isASCIISpace s)))"

definition etag_char :: "char \<Rightarrow> bool" where
  "etag_char c =
     ((of_char c :: nat) = 0x21 \<or> (0x23 \<le> (of_char c :: nat) \<and> (of_char c :: nat) \<le> 0x7E)
      \<or> 0x80 \<le> (of_char c :: nat))"

text \<open>The loop of \<^verbatim>\<open>scanETag\<close> after the opening quote: \<open>seen\<close> is the tag read so far.\<close>

fun scan_quoted :: "string \<Rightarrow> string \<Rightarrow> string \<times> string" where
  "scan_quoted seen [] = ([], [])"
| "scan_quoted seen (c # cs) =
     (if etag_char c then scan_quoted (seen @ [c]) cs
      else if c = CHR 0x22 then (seen @ [c], cs)
      else ([], []))"

definition scanETag :: "string \<Rightarrow> string \<times> string" where
  "scanETag s0 =
     (let s = TrimString s0;
          start = (if prefix ''W/'' s then 2 else 0)
      in if length (drop start s) < 2 \<or> s ! start \<noteq> CHR 0x22 then ([], [])
         else scan_quoted (take (start + 1) s) (drop (start + 1) s))"

definition etagWeakMatch :: "string \<Rightarrow> string \<Rightarrow> bool" where
  "etagWeakMatch a b =
     ((if prefix ''W/'' a then drop 2 a else a) = (if prefix ''W/'' b then drop 2 b else b))"

text \<open>The loop of \<^verbatim>\<open>checkIfNoneMatch\<close>: whether a tag of the header matches \<open>etag\<close>.\<close>

function inm_matches :: "string \<Rightarrow> string \<Rightarrow> bool" where
  "inm_matches buf0 etag =
     (let buf = TrimString buf0 in
      if buf = [] then False
      else if hd buf = CHR '','' then inm_matches (tl buf) etag
      else if hd buf = CHR ''*'' then True
      else
        (case scanETag buf of (e, remain) \<Rightarrow>
           if e = [] then False
           else if etagWeakMatch e etag then True
           else inm_matches remain etag))"
  by pat_completeness auto
termination
proof (relation "measure (\<lambda>(buf, etag). length buf)", goal_cases)
  case 1
  show ?case by simp
next
  case (2 buf0 etag buf)
  have "length (TrimString buf0) \<le> length buf0"
    unfolding TrimString_def by (metis length_dropWhile_le length_rev order_trans)
  with 2 show ?case by (cases "TrimString buf0") auto
next
  case (3 buf0 etag buf e remain)
  have trim: "length (TrimString t) \<le> length t" for t
    unfolding TrimString_def by (metis length_dropWhile_le length_rev order_trans)
  have scan: "scan_quoted seen cs = (e', rem') \<Longrightarrow> length rem' \<le> length cs" for seen cs e' rem'
    by (induction seen cs rule: scan_quoted.induct) (auto split: if_splits)
  have scanETag_shorter: "scanETag s = (e', rem') \<Longrightarrow> e' \<noteq> [] \<Longrightarrow> length rem' < length s"
    for s e' rem'
    using trim[of s] by (auto simp: scanETag_def Let_def split: if_splits dest!: scan)
  from 3 have "scanETag buf = (e, remain)" and "e \<noteq> []" by simp_all
  then have "length remain < length buf" by (rule scanETag_shorter)
  with 3 trim[of buf0] show ?case by auto
qed

declare inm_matches.simps [simp del]

datatype condResult = condNone | condTrue | condFalse

definition checkIfNoneMatch :: "response \<Rightarrow> request \<Rightarrow> condResult" where
  "checkIfNoneMatch w r =
     (let inm = go_get (Header r) ''If-None-Match'' in
      if inm = [] then condNone
      else if inm_matches inm (go_get (header w) ''Etag'') then condFalse
      else condTrue)"

definition Header_Del :: "string \<Rightarrow> response \<Rightarrow> response" where
  "Header_Del k w = w\<lparr>header := (header w)(k := None)\<rparr>"

definition writeNotModified :: "response \<Rightarrow> response" where
  "writeNotModified w =
     (let w = Header_Del ''Content-Type'' w;
          w = Header_Del ''Content-Length'' w;
          w = (if go_get (header w) ''Etag'' \<noteq> [] then Header_Del ''Last-Modified'' w else w)
      in WriteHeader 304 w)"

definition std_ServeContent ::
    "(time \<Rightarrow> string) \<Rightarrow> request \<Rightarrow> string \<Rightarrow> time \<Rightarrow> osfile \<Rightarrow> response \<Rightarrow> response" where
  "std_ServeContent fmt r name modtime f w =
     (let w = Header_Set ''Last-Modified'' (fmt modtime) w in
      if checkIfNoneMatch w r = condFalse \<and> (Method r = ''GET'' \<or> Method r = ''HEAD'')
      then writeNotModified w
      else if checkIfNoneMatch w r = condFalse then WriteHeader 412 w
      else
        let w = Header_Set ''Accept-Ranges'' ''bytes'' w;
            w = (if go_get (header w) ''Content-Encoding'' = []
                 then Header_Set ''Content-Length'' (Sprintf_d (int (length (Content f)))) w
                 else w);
            w = WriteHeader 200 w
        in if Method r \<noteq> ''HEAD'' then fst (io_Copy w f) else w)"

text \<open>\<^verbatim>\<open>http.ServeFile\<close> for a regular file and a URL path with no \<^verbatim>\<open>..\<close> element: the file
  is opened and handed to the code of \<^verbatim>\<open>ServeContent\<close>; a file that cannot be opened is
  answered 404.\<close>

definition std_ServeFile ::
    "(time \<Rightarrow> string) \<Rightarrow> request \<Rightarrow> filesystem \<Rightarrow> string \<Rightarrow> response \<Rightarrow> response" where
  "std_ServeFile fmt r fs name w =
     (case os_Open (fs 0) name of
        None \<Rightarrow> http_Error w ''404 page not found'' 404
      | Some f \<Rightarrow> std_ServeContent fmt r (filepath_Base name) (MTime f) f w)"

subsection \<open>Content negotiation\<close>

text \<open>
  \<^verbatim>\<open>FeedsHandler\<close> asks \<^verbatim>\<open>accept.PreferredContentTypeLike(r.Header, "text/plain")\<close> of the
  package \<^verbatim>\<open>github.com/rickb777/accept\<close>. The definitions below read an \<^verbatim>\<open>Accept\<close> header
  as RFC 7231 has it: media ranges separated by commas, each with parameters after
  semicolons, the parameter \<^verbatim>\<open>q\<close> being the quality (1 when absent), kept here in
  thousandths. They are for headers that name media types in lower case and without
  wildcards.
\<close>

fun split_at :: "char \<Rightarrow> string \<Rightarrow> string list" where
  "split_at sep [] = [[]]"
| "split_at sep (c # cs) =
     (if c = sep then [] # split_at sep cs
      else (case split_at sep cs of [] \<Rightarrow> [[c]] | e # es \<Rightarrow> (c # e) # es))"

definition qvalue :: "string \<Rightarrow> nat" where
  "qvalue v =
     (case split_at (CHR ''.'') v of
        [] \<Rightarrow> 1000
      | [i] \<Rightarrow> (case ParseUint i of None \<Rightarrow> 1000 | Some n \<Rightarrow> n * 1000)
      | i # f # rest \<Rightarrow>
          (case ParseUint i of
             None \<Rightarrow> 1000
           | Some n \<Rightarrow> (case ParseUint (take 3 (f @ ''000'')) of None \<Rightarrow> 1000 | Some m \<Rightarrow> n * 1000 + m)))"

definition parse_range :: "string \<Rightarrow> string \<times> nat" where
  "parse_range part =
     (case map TrimString (split_at (CHR '';'') part) of
        [] \<Rightarrow> ([], 1000)
      | t # params \<Rightarrow>
          (t, case filter (prefix ''q='') params of [] \<Rightarrow> 1000 | q # rest \<Rightarrow> qvalue (drop 2 q)))"

definition parse_accept :: "string \<Rightarrow> (string \<times> nat) list" where
  "parse_accept h = map parse_range (filter (\<lambda>p. p \<noteq> []) (map TrimString (split_at (CHR '','') h)))"

text \<open>The client's best-preferred media range: the one of highest quality, the first in
  the header among equals.\<close>

fun best_range :: "(string \<times> nat) list \<Rightarrow> (string \<times> nat) option" where
  "best_range [] = None"
| "best_range (x # xs) =
     (case best_range xs of
        None \<Rightarrow> Some x
      | Some y \<Rightarrow> if snd x < snd y then Some y else Some x)"

text \<open>A media type is accepted when the header names it with a quality above zero.\<close>

definition accepts :: "string \<Rightarrow> string \<Rightarrow> bool" where
  "accepts h t = list_ex (\<lambda>(t', q). t' = t \<and> 0 < q) (parse_accept h)"

text \<open>\<^verbatim>\<open>accept.PreferredContentTypeLike\<close>: the given media type when the \<^verbatim>\<open>Accept\<close> header
  accepts it, whatever else the header prefers, and the empty string otherwise. It is one
  value of the field \<open>PreferredContentTypeLike\<close> of \<open>env\<close>.\<close>

definition std_PreferredContentTypeLike :: "(string \<rightharpoonup> string) \<Rightarrow> string \<Rightarrow> string" where
  "std_PreferredContentTypeLike h like = (if accepts (go_get h ''Accept'') like then like else [])"

subsection \<open>What an entity tag shows of a time\<close>

text \<open>The civil fields of a time are in their ranges, the offset below a hundred hours.\<close>

definition valid_time :: "time \<Rightarrow> bool" where
  "valid_time t =
     (1 \<le> Month t \<and> Month t \<le> 12 \<and> 1 \<le> Day t \<and> Day t \<le> 31 \<and> 0 \<le> Hour t \<and> Hour t \<le> 23
      \<and> 0 \<le> Minute t \<and> Minute t \<le> 59 \<and> 0 \<le> Second t \<and> Second t \<le> 59
      \<and> 0 \<le> Nanosecond t \<and> Nanosecond t < 1000000000 \<and> \<bar>Offset t\<bar> < 360000)"

text \<open>What the layout element \<^verbatim>\<open>Z07:00\<close> shows of an offset: nothing for zero, else the
  offset in whole minutes. \<open>to_second\<close> is what \<^verbatim>\<open>time.RFC3339\<close> shows of a time.\<close>

definition zone_shown :: "int \<Rightarrow> int option" where
  "zone_shown offset = (if offset = 0 then None else Some (go_div offset 60))"

definition to_second :: "time \<Rightarrow> int \<times> int \<times> int \<times> int \<times> int \<times> int \<times> int option" where
  "to_second t = (Year t, Month t, Day t, Hour t, Minute t, Second t, zone_shown (Offset t))"

subsection \<open>Sample inputs\<close>

text \<open>A sample time, the times one nanosecond and one second later, a sample store under
  \<^verbatim>\<open>/data\<close> and a sample environment, for the concrete instances below.\<close>

definition t0 :: time where
  "t0 = \<lparr>Year = 2020, Month = 7, Day = 4, Hour = 1, Minute = 2, Second = 3,
         Nanosecond = 0, Offset = 0\<rparr>"

definition t1 :: time where
  "t1 = t0\<lparr>Nanosecond := 1\<rparr>"

definition t2 :: time where
  "t2 = t0\<lparr>Second := 4\<rparr>"

definition file0 :: osfile where
  "file0 = \<lparr>MTime = t0, Content = ''PNG'', Mode = ReadsOk\<rparr>"

definition dir0 :: dir where
  "dir0 = [''/data/alice.txt'' \<mapsto> file0, ''/data/alice.png'' \<mapsto> file0,
           ''/data/bob.txt'' \<mapsto> file0, ''/data/media/pic.png'' \<mapsto> file0,
           ''/data/carol.png'' \<mapsto> file0, ''/secret.txt'' \<mapsto> file0]"

definition fs0 :: filesystem where
  "fs0 = (\<lambda>n. dir0)"

definition conf0 :: conf where
  "conf0 = \<lparr>Root = ''/data'', Feeds = [(''alice'', ''http://a.example/feed'')]\<rparr>"

definition env0 :: env where
  "env0 =
     \<lparr>mediaDir = ''media'',
      avatarResolution = 60,
      TimeFormat = (\<lambda>t. ''Sat, 04 Jul 2020 01:02:03 GMT''),
      ServeFile = std_ServeFile (\<lambda>t. ''Sat, 04 Jul 2020 01:02:03 GMT''),
      ServeContent = std_ServeContent (\<lambda>t. ''Sat, 04 Jul 2020 01:02:03 GMT''),
      Identicon = (\<lambda>name resolution blocks. map of_char name),
      png_Encode = map char_of,
      PreferredContentTypeLike = std_PreferredContentTypeLike,
      ValidateFeed =
        (\<lambda>c url. if url = ''http://b.example/feed''
                  then Some \<lparr>Name = ''bob'', URL = url\<rparr>
                  else if url = ''http://a.example/feed''
                  then Some \<lparr>Name = ''alice'', URL = url\<rparr>
                  else None),
      Execute =
        (\<lambda>name ctx. case ctx of
             TitleCtx t \<Rightarrow> (t, False)
           | MessageCtx t m \<Rightarrow> (t @ '': '' @ m, False)
           | FeedsCtx t fs \<Rightarrow> (t, False))\<rparr>"

definition request0 :: "string \<Rightarrow> string \<Rightarrow> string \<Rightarrow> (string \<rightharpoonup> string) \<Rightarrow> request" where
  "request0 m uri name h =
     \<lparr>Method = m, RequestURI = uri, Header = h, Vars = [''name'' \<mapsto> name], Form = Map.empty\<rparr>"


definition tag_bob :: string where
  "tag_bob = ''W/'' @ quote @ ''/avatar/bob'' @ quote"

definition post0 :: request where
  "post0 = \<lparr>Method = ''POST'', RequestURI = ''/'', Header = Map.empty, Vars = Map.empty,
            Form = [''url'' \<mapsto> ''http://b.example/feed'']\<rparr>"

definition post1 :: request where
  "post1 = post0\<lparr>Form := [''url'' \<mapsto> ''http://a.example/feed'']\<rparr>"

definition list0 :: request where
  "list0 = \<lparr>Method = ''GET'', RequestURI = ''/feeds'', Header = [''Accept'' \<mapsto> ''text/plain''],
            Vars = Map.empty, Form = Map.empty\<rparr>"

definition list1 :: request where
  "list1 = list0\<lparr>Header := [''Accept'' \<mapsto> ''text/html'']\<rparr>"

definition list2 :: request where
  "list2 = list0\<lparr>Header := [''Accept'' \<mapsto> ''text/html, text/plain;q=0.1'']\<rparr>"


section \<open>Properties\<close>

subsection \<open>The response writer\<close>

lemma Header_Set_fields [simp]:
  "req_method (Header_Set k v w) = req_method w"
  "header (Header_Set k v w) = (header w)(k \<mapsto> v)"
  "wroteHeader (Header_Set k v w) = wroteHeader w"
  "status (Header_Set k v w) = status w"
  "sent (Header_Set k v w) = sent w"
  "contentLength (Header_Set k v w) = contentLength w"
  "written (Header_Set k v w) = written w"
  "body (Header_Set k v w) = body w"
  "calls (Header_Set k v w) = calls w"
  by (simp_all add: Header_Set_def)

lemma call_fields [simp]:
  "req_method (call e w) = req_method w"
  "header (call e w) = header w"
  "wroteHeader (call e w) = wroteHeader w"
  "status (call e w) = status w"
  "sent (call e w) = sent w"
  "contentLength (call e w) = contentLength w"
  "written (call e w) = written w"
  "body (call e w) = body w"
  "calls (call e w) = calls w @ [e]"
  by (simp_all add: call_def)

lemma new_response_fields [simp]:
  "req_method (new_response r) = Method r"
  "header (new_response r) = Map.empty"
  "wroteHeader (new_response r) = False"
  "status (new_response r) = 0"
  "sent (new_response r) = Map.empty"
  "contentLength (new_response r) = None"
  "written (new_response r) = 0"
  "body (new_response r) = []"
  "calls (new_response r) = []"
  by (simp_all add: new_response_def)

lemma WriteHeader_fields [simp]:
  "req_method (WriteHeader code w) = req_method w"
  "wroteHeader (WriteHeader code w) = True"
  "status (WriteHeader code w) = (if wroteHeader w then status w else code)"
  "sent (WriteHeader code w) = (if wroteHeader w then sent w else header w)"
  "written (WriteHeader code w) = written w"
  "body (WriteHeader code w) = body w"
  "calls (WriteHeader code w) = calls w"
  by (simp_all add: WriteHeader_def Let_def split: option.splits)

lemma WriteHeader_again [simp]: "wroteHeader w \<Longrightarrow> WriteHeader code w = w"
  by (simp add: WriteHeader_def)

lemma Write_fields [simp]:
  "req_method (fst (Write d w)) = req_method w"
  "wroteHeader (fst (Write d w)) = True"
  "status (fst (Write d w)) = (if wroteHeader w then status w else 200)"
  "sent (fst (Write d w)) = (if wroteHeader w then sent w else header w)"
  "calls (fst (Write d w)) = calls w"
  by (simp_all add: Write_def Let_def split: option.splits)

lemma http_Error_fields [simp]:
  "req_method (http_Error w e code) = req_method w"
  "wroteHeader (http_Error w e code) = True"
  "status (http_Error w e code) = (if wroteHeader w then status w else code)"
  "sent (http_Error w e code) =
     (if wroteHeader w then sent w
      else (header w)(''Content-Type'' \<mapsto> ''text/plain; charset=utf-8'',
                      ''X-Content-Type-Options'' \<mapsto> ''nosniff''))"
  "calls (http_Error w e code) = calls w"
  by (simp_all add: http_Error_def Let_def)

lemma finishRequest_fields [simp]:
  "req_method (finishRequest w) = req_method w"
  "wroteHeader (finishRequest w) = True"
  "status (finishRequest w) = (if wroteHeader w then status w else 200)"
  "sent (finishRequest w) = (if wroteHeader w then sent w else header w)"
  "written (finishRequest w) = written w"
  "body (finishRequest w) = body w"
  "calls (finishRequest w) = calls w"
  by (simp_all add: finishRequest_def)

text \<open>An error reply on a fresh response writer: the text is the body, unless the request
  is a HEAD.\<close>

lemma http_Error_body:
  "\<not> wroteHeader w \<Longrightarrow> bodyAllowedForStatus code \<Longrightarrow> go_get (header w) ''Content-Length'' = []
    \<Longrightarrow> contentLength w = None
    \<Longrightarrow> body (http_Error w e code) =
          (if req_method w = ''HEAD'' then body w else body w @ e @ [CHR 0x0A])"
  by (simp add: http_Error_def Write_def WriteHeader_def Header_Set_def Let_def go_get_def
      split: option.splits)

subsection \<open>More on the response writer\<close>

lemma strings_Contains_sublist: "strings_Contains s sub = sublist sub s"
  by (induction s) (auto simp: sublist_Cons_right)

lemma timestamp_etag_nonempty [simp]: "timestamp_etag uri t \<noteq> []" "name_etag uri \<noteq> []"
  by (simp_all add: timestamp_etag_def name_etag_def)

lemma match_simp [simp]: "e \<noteq> [] \<Longrightarrow> (m \<noteq> [] \<and> strings_Contains m e) = sublist e m"
  by (cases m) (auto simp: strings_Contains_sublist)

lemma library_fields [simp]:
  "req_method (library f w) = req_method w"
  "calls (library f w) = calls w"
  "header (library f w) = header (f w)"
  "wroteHeader (library f w) = wroteHeader (f w)"
  "status (library f w) = status (f w)"
  "sent (library f w) = sent (f w)"
  "body (library f w) = body (f w)"
  by (simp_all add: library_def)

lemma io_Copy_fields [simp]:
  "calls (fst (io_Copy w f)) = calls w"
  "req_method (fst (io_Copy w f)) = req_method w"
  by (simp_all add: io_Copy_def Let_def case_prod_beta split: io_mode.splits)

lemma io_Copy_committed:
  "wroteHeader (fst (io_Copy w f)) \<Longrightarrow> status (fst (io_Copy w f)) = (if wroteHeader w then status w else 200)"
  "wroteHeader (fst (io_Copy w f)) \<Longrightarrow> sent (fst (io_Copy w f)) = (if wroteHeader w then sent w else header w)"
  "\<not> wroteHeader (fst (io_Copy w f)) \<Longrightarrow> header (fst (io_Copy w f)) = header w"
  by (auto simp: io_Copy_def Let_def case_prod_beta split: io_mode.splits if_splits)

lemma go_get_upd [simp]: "go_get (m(k \<mapsto> v)) k' = (if k' = k then v else go_get m k')"
  by (simp add: go_get_def)

lemma go_get_empty [simp]: "go_get Map.empty k = []"
  by (simp add: go_get_def)

lemma response_headers_simps [simp]:
  "response_headers (Header_Set k v w) = (if wroteHeader w then sent w else (header w)(k \<mapsto> v))"
  "response_headers (call e w) = response_headers w"
  "response_headers (library f w) = response_headers (f w)"
  "response_headers (finishRequest w) = response_headers w"
  "response_headers (http_Error w msg code) = (if wroteHeader w then sent w else (header w)(''Content-Type'' \<mapsto> ''text/plain; charset=utf-8'',
                      ''X-Content-Type-Options'' \<mapsto> ''nosniff''))"
  by (simp_all add: response_headers_def)

lemma sent_serve: "sent (serve h r) = response_headers (h (new_response r) r)"
  by (simp add: serve_def response_headers_def)

lemma Write_plain:
  assumes "contentLength w = None" "go_get (header w) ''Content-Length'' = []"
    "wroteHeader w \<longrightarrow> bodyAllowedForStatus (status w)" "req_method w \<noteq> ''HEAD''"
  shows "body (fst (Write d w)) = body w @ d \<and> contentLength (fst (Write d w)) = None
       \<and> go_get (header (fst (Write d w))) ''Content-Length'' = []
       \<and> bodyAllowedForStatus (status (fst (Write d w)))
       \<and> snd (Write d w) = False"
  using assms
  by (auto simp: Write_def WriteHeader_def Let_def bodyAllowedForStatus_def)

lemma foldl_Write_body:
  assumes "contentLength w = None" "go_get (header w) ''Content-Length'' = []"
    "wroteHeader w \<longrightarrow> bodyAllowedForStatus (status w)" "req_method w \<noteq> ''HEAD''"
  shows "body (foldl (\<lambda>w x. fst (Write (line x) w)) w xs) = body w @ concat (map line xs)"
  using assms
proof (induction xs arbitrary: w)
  case Nil
  then show ?case by simp
next
  case (Cons x xs)
  from Write_plain[OF Cons.prems, of "line x"] Cons.prems(4)
  have "body (foldl (\<lambda>w x. fst (Write (line x) w)) (fst (Write (line x) w)) xs)
        = body (fst (Write (line x) w)) @ concat (map line xs)"
    by (intro Cons.IH) auto
  with Write_plain[OF Cons.prems, of "line x"] show ?case by simp
qed

lemma invariant_Write [simp]:
  "response_headers (fst (Write d w)) = response_headers w"
  "response_status (fst (Write d w)) = response_status w"
  "response_headers (WriteHeader code w) = (if wroteHeader w then sent w else header w)"
  by (simp_all add: response_headers_def response_status_def)

lemma io_Copy_invariant [simp]:
  "response_headers (fst (io_Copy w f)) = response_headers w"
  "response_status (fst (io_Copy w f)) = response_status w"
  by (simp_all add: io_Copy_def Let_def case_prod_beta split: io_mode.splits)

lemma Header_Del_fields [simp]:
  "wroteHeader (Header_Del k w) = wroteHeader w"
  "sent (Header_Del k w) = sent w"
  "header (Header_Del k w) = (header w)(k := None)"
  "response_headers (Header_Del k w) = (if wroteHeader w then sent w else (header w)(k := None))"
  by (simp_all add: Header_Del_def response_headers_def)

lemma invariant_foldl_Write [simp]:
  "response_headers (foldl (\<lambda>w x. fst (Write (line x) w)) w xs) = response_headers w"
  "response_status (foldl (\<lambda>w x. fst (Write (line x) w)) w xs) = response_status w"
  "req_method (foldl (\<lambda>w x. fst (Write (line x) w)) w xs) = req_method w"
  by (induction xs arbitrary: w) simp_all

lemma status_serve: "status (serve h r) = response_status (h (new_response r) r)"
  by (simp add: serve_def response_status_def)

lemma body_serve: "body (serve h r) = body (h (new_response r) r)"
  by (simp add: serve_def)

lemma calls_serve: "calls (serve h r) = calls (h (new_response r) r)"
  by (simp add: serve_def)

lemmas serve_simps = sent_serve status_serve body_serve calls_serve

lemma response_status_simps [simp]:
  "response_status (Header_Set k v w) = response_status w"
  "response_status (call e w) = response_status w"
  "response_status (http_Error w msg code) = (if wroteHeader w then status w else code)"
  "response_status (new_response r) = 200"
  by (simp_all add: response_status_def)

lemma new_response_headers [simp]: "response_headers (new_response r) = Map.empty"
  by (simp add: response_headers_def)

lemma render_fields [simp]:
  "response_headers (fst (render env n ctx w)) = response_headers w"
  "req_method (fst (render env n ctx w)) = req_method w"
  by (simp_all add: render_def case_prod_beta Let_def)

lemma render_body:
  assumes "contentLength w = None" "go_get (header w) ''Content-Length'' = []"
    "wroteHeader w \<longrightarrow> bodyAllowedForStatus (status w)" "req_method w \<noteq> ''HEAD''"
  shows "body (fst (render env n ctx w)) = body w @ fst (Execute env n ctx)"
    and "snd (render env n ctx w) = snd (Execute env n ctx)"
    and "wroteHeader (fst (render env n ctx w)) = (wroteHeader w \<or> fst (Execute env n ctx) \<noteq> [])"
    and "contentLength (fst (render env n ctx w)) = None"
    and "go_get (header (fst (render env n ctx w))) ''Content-Length'' = []"
    and "response_status (fst (render env n ctx w)) = response_status w"
  using Write_plain[OF assms, of "fst (Execute env n ctx)"] assms
  by (auto simp: render_def case_prod_beta Let_def response_status_def)

lemma http_Error_body_committed:
  assumes "contentLength w = None" "go_get (header w) ''Content-Length'' = []"
    "wroteHeader w \<longrightarrow> bodyAllowedForStatus (status w)" "req_method w \<noteq> ''HEAD''" "bodyAllowedForStatus code"
  shows "body (http_Error w msg code) = body w @ msg @ [CHR 0x0A]"
  using assms
  by (auto simp: http_Error_def Write_def WriteHeader_def Let_def Header_Set_def go_get_def)


subsection \<open>Decimal numbers\<close>

lemma digit_val_digit_char [simp]: "d < 10 \<Longrightarrow> digit_val (digit_char d) = d"
  by (simp add: digit_val_def digit_char_def)

lemma is_digit_digit_char [simp]: "d < 10 \<Longrightarrow> is_digit (digit_char d)"
  by (simp add: is_digit_def digit_char_def)

lemma digit_char_not_dash [simp]: "d < 10 \<Longrightarrow> digit_char d \<noteq> CHR ''-''"
  by (auto simp: digit_char_def dest!: arg_cong[where f="of_char :: char \<Rightarrow> nat"])

lemma FormatUint_digits: "list_all is_digit (FormatUint n)"
  by (induction n rule: FormatUint.induct) (subst FormatUint.simps, simp)

lemma FormatUint_nonempty [simp]: "FormatUint n \<noteq> []"
  by (subst FormatUint.simps) simp

lemma dec_val_FormatUint [simp]: "foldl (\<lambda>a c. a * 10 + digit_val c) 0 (FormatUint n) = n"
  by (induction n rule: FormatUint.induct) (subst FormatUint.simps, simp)

lemma ParseUint_FormatUint [simp]: "ParseUint (FormatUint n) = Some n"
  by (simp add: ParseUint_def FormatUint_digits)

lemma is_digit_not_sign: "is_digit c \<Longrightarrow> c \<noteq> CHR ''+'' \<and> c \<noteq> CHR ''-''"
  by (auto simp: is_digit_def)

lemma ParseInt_FormatUint:
  "ParseInt (FormatUint n) = (if int n < 2 ^ 63 then Some (int n) else None)"
proof (cases "FormatUint n")
  case Nil
  then show ?thesis by simp
next
  case (Cons c rest)
  with FormatUint_digits[of n] have "is_digit c" by simp
  then have "c \<noteq> CHR ''+''" "c \<noteq> CHR ''-''" by (simp_all add: is_digit_not_sign)
  moreover have "ParseUint (c # rest) = Some n" using Cons ParseUint_FormatUint[of n] by simp
  ultimately show ?thesis using Cons by (simp add: ParseInt_def)
qed

lemma ParseInt_Sprintf_d: "0 \<le> x \<Longrightarrow> ParseInt (Sprintf_d x) = (if x < 2 ^ 63 then Some x else None)"
  by (auto simp: Sprintf_d_def ParseInt_FormatUint)

lemma dec_val_zeros [simp]: "foldl (\<lambda>a c. a * 10 + digit_val c) 0 (replicate k (CHR ''0'')) = 0"
  by (induction k) (simp_all add: digit_val_def)

lemma no_dash_FormatUint: "CHR ''-'' \<notin> set (FormatUint n)"
  using FormatUint_digits[of n] by (auto simp: list_all_iff dest: is_digit_not_sign)

lemma appendInt_nonneg: "0 \<le> x \<Longrightarrow> appendInt x w = replicate (w - length (FormatUint (nat x))) (CHR ''0'') @ FormatUint (nat x)"
  by (simp add: appendInt_def Let_def)

lemma appendInt_neg: "x < 0 \<Longrightarrow> appendInt x w = CHR ''-'' # replicate (w - length (FormatUint (nat (- x)))) (CHR ''0'') @ FormatUint (nat (- x))"
  by (simp add: appendInt_def abs_if Let_def)

lemma no_dash_digits_part: "CHR ''-'' \<notin> set (replicate k (CHR ''0'') @ FormatUint n)"
  using no_dash_FormatUint by auto

lemma appendInt_inj: "appendInt x w = appendInt y w \<Longrightarrow> x = y"
proof -
  assume eq: "appendInt x w = appendInt y w"
  have hd_nonneg: "hd (appendInt z w) \<noteq> CHR ''-''" if "0 \<le> z" for z
  proof -
    have "appendInt z w \<noteq> []" using that by (simp add: appendInt_nonneg)
    then have "hd (appendInt z w) \<in> set (appendInt z w)" by simp
    then show ?thesis using that no_dash_digits_part by (auto simp: appendInt_nonneg)
  qed
  consider "0 \<le> x" "0 \<le> y" | "x < 0" "y < 0" | "0 \<le> x" "y < 0" | "x < 0" "0 \<le> y" by linarith
  then show ?thesis
  proof cases
    case 1
    with eq have "foldl (\<lambda>a c. a * 10 + digit_val c) 0 (appendInt x w) = foldl (\<lambda>a c. a * 10 + digit_val c) 0 (appendInt y w)" by simp
    with 1 show ?thesis by (simp add: appendInt_nonneg)
  next
    case 2
    with eq have "foldl (\<lambda>a c. a * 10 + digit_val c) 0 (tl (appendInt x w)) = foldl (\<lambda>a c. a * 10 + digit_val c) 0 (tl (appendInt y w))" by simp
    with 2 show ?thesis by (simp add: appendInt_neg)
  next
    case 3
    then show ?thesis using eq hd_nonneg[of x] by (simp add: appendInt_neg)
  next
    case 4
    then show ?thesis using eq[symmetric] hd_nonneg[of y] by (simp add: appendInt_neg)
  qed
qed

lemma length_FormatUint_small: "n < 100 \<Longrightarrow> length (FormatUint n) = (if n < 10 then 1 else 2)"
  by (subst FormatUint.simps, subst FormatUint.simps) auto

lemma length_appendInt2: "0 \<le> x \<Longrightarrow> x < 100 \<Longrightarrow> length (appendInt x 2) = 2"
  by (auto simp: appendInt_nonneg length_FormatUint_small)

lemma split_at_dash:
  "CHR ''-'' \<notin> set xs \<Longrightarrow> CHR ''-'' \<notin> set ys \<Longrightarrow> xs @ CHR ''-'' # r = ys @ CHR ''-'' # r'
    \<Longrightarrow> xs = ys \<and> r = r'"
proof (induction xs arbitrary: ys)
  case Nil
  then show ?case by (cases ys) auto
next
  case (Cons a xs)
  then show ?case by (cases ys) auto
qed

lemma year_split:
  assumes "appendInt x w @ CHR ''-'' # r = appendInt y w @ CHR ''-'' # r'"
  shows "x = y \<and> r = r'"
proof -
  let ?d = "\<lambda>z. replicate (w - length (FormatUint (nat \<bar>z\<bar>))) (CHR ''0'') @ FormatUint (nat \<bar>z\<bar>)"
  have nd: "CHR ''-'' \<notin> set (?d z)" for z using no_dash_digits_part by simp
  have ne: "?d z \<noteq> []" for z by simp
  have form: "appendInt z w = (if z < 0 then ''-'' else []) @ ?d z" for z
    by (simp add: appendInt_def Let_def)
  have hdd: "hd (?d z) \<noteq> CHR ''-''" for z
    using nd[of z] ne[of z] by (metis hd_in_set)
  consider "0 \<le> x" "0 \<le> y" | "x < 0" "y < 0" | "0 \<le> x" "y < 0" | "x < 0" "0 \<le> y" by linarith
  then have "appendInt x w = appendInt y w \<and> r = r'"
  proof cases
    case 1
    then show ?thesis using assms split_at_dash[OF nd[of x] nd[of y], of r r'] by (simp add: form)
  next
    case 2
    then show ?thesis using assms split_at_dash[OF nd[of x] nd[of y], of r r'] by (simp add: form)
  next
    case 3
    have "hd (appendInt x w @ CHR ''-'' # r) = hd (?d x)" using 3 ne[of x] by (simp add: form hd_append)
    moreover have "hd (appendInt y w @ CHR ''-'' # r') = CHR ''-''" using 3 by (simp add: form)
    ultimately show ?thesis using assms hdd[of x] by simp
  next
    case 4
    have "hd (appendInt y w @ CHR ''-'' # r') = hd (?d y)" using 4 ne[of y] by (simp add: form hd_append)
    moreover have "hd (appendInt x w @ CHR ''-'' # r) = CHR ''-''" using 4 by (simp add: form)
    ultimately show ?thesis using assms hdd[of y] by simp
  qed
  then show ?thesis using appendInt_inj by blast
qed

subsection \<open>Entity tags and times\<close>

lemma go_div_60_bound: "\<bar>a\<bar> < 360000 \<Longrightarrow> \<bar>go_div a 60\<bar> < 6000"
  by (auto simp: go_div_def sgn_if abs_if)

lemma appendInt2_split:
  assumes "0 \<le> x" "x < 100" "0 \<le> y" "y < 100" "appendInt x 2 @ r = appendInt y 2 @ r'"
  shows "x = y \<and> r = r'"
proof -
  have "length (appendInt x 2) = length (appendInt y 2)" using assms by (simp add: length_appendInt2)
  with assms(5) have "appendInt x 2 = appendInt y 2 \<and> r = r'" by simp
  then show ?thesis using appendInt_inj by blast
qed

lemma zone_suffix_inj:
  assumes "\<bar>a\<bar> < 360000" "\<bar>b\<bar> < 360000" "zone_suffix a = zone_suffix b"
  shows "zone_shown a = zone_shown b"
proof (cases "a = 0 \<or> b = 0")
  case True
  then show ?thesis using assms(3) by (auto simp: zone_suffix_def zone_shown_def Let_def split: if_splits)
next
  case False
  let ?za = "go_div a 60" and ?zb = "go_div b 60"
  have ba: "\<bar>?za\<bar> < 6000" and bb: "\<bar>?zb\<bar> < 6000" using assms go_div_60_bound by auto
  have sg: "(?za < 0) = (?zb < 0)"
    using assms(3) False by (auto simp: zone_suffix_def Let_def split: if_splits)
  have rest: "appendInt (\<bar>?za\<bar> div 60) 2 @ '':'' @ appendInt (\<bar>?za\<bar> mod 60) 2
      = appendInt (\<bar>?zb\<bar> div 60) 2 @ '':'' @ appendInt (\<bar>?zb\<bar> mod 60) 2"
    using assms(3) False by (auto simp: zone_suffix_def Let_def split: if_splits)
  have h: "\<bar>?za\<bar> div 60 = \<bar>?zb\<bar> div 60 \<and> '':'' @ appendInt (\<bar>?za\<bar> mod 60) 2 = '':'' @ appendInt (\<bar>?zb\<bar> mod 60) 2"
    using ba bb by (intro appendInt2_split[OF _ _ _ _ rest]) auto
  then have m: "\<bar>?za\<bar> mod 60 = \<bar>?zb\<bar> mod 60" using appendInt_inj by auto
  from h m have "\<bar>?za\<bar> = \<bar>?zb\<bar>" by (metis mult_div_mod_eq)
  with sg have "?za = ?zb" by linarith
  then show ?thesis using False by (simp add: zone_shown_def)
qed

lemma Format_RFC3339_inj:
  assumes "valid_time t" "valid_time t'" "Format_RFC3339 t = Format_RFC3339 t'"
  shows "to_second t = to_second t'"
proof -
  note v = assms(1,2)[unfolded valid_time_def]
  from assms(3) have y: "Year t = Year t'"
    and r1: "appendInt (Month t) 2 @ ''-'' @ appendInt (Day t) 2
       @ ''T'' @ appendInt (Hour t) 2 @ '':'' @ appendInt (Minute t) 2 @ '':''
       @ appendInt (Second t) 2 @ zone_suffix (Offset t)
     = appendInt (Month t') 2 @ ''-'' @ appendInt (Day t') 2
       @ ''T'' @ appendInt (Hour t') 2 @ '':'' @ appendInt (Minute t') 2 @ '':''
       @ appendInt (Second t') 2 @ zone_suffix (Offset t')"
    using year_split[of "Year t" 4 _ "Year t'"] unfolding Format_RFC3339_def by auto
  from appendInt2_split[OF _ _ _ _ r1] v have mo: "Month t = Month t'"
    and r2: "appendInt (Day t) 2
       @ ''T'' @ appendInt (Hour t) 2 @ '':'' @ appendInt (Minute t) 2 @ '':''
       @ appendInt (Second t) 2 @ zone_suffix (Offset t)
     = appendInt (Day t') 2
       @ ''T'' @ appendInt (Hour t') 2 @ '':'' @ appendInt (Minute t') 2 @ '':''
       @ appendInt (Second t') 2 @ zone_suffix (Offset t')"
    by auto
  from appendInt2_split[OF _ _ _ _ r2] v have d: "Day t = Day t'"
    and r3: "appendInt (Hour t) 2 @ '':'' @ appendInt (Minute t) 2 @ '':''
       @ appendInt (Second t) 2 @ zone_suffix (Offset t)
     = appendInt (Hour t') 2 @ '':'' @ appendInt (Minute t') 2 @ '':''
       @ appendInt (Second t') 2 @ zone_suffix (Offset t')"
    by auto
  from appendInt2_split[OF _ _ _ _ r3] v have h: "Hour t = Hour t'"
    and r4: "appendInt (Minute t) 2 @ '':''
       @ appendInt (Second t) 2 @ zone_suffix (Offset t)
     = appendInt (Minute t') 2 @ '':''
       @ appendInt (Second t') 2 @ zone_suffix (Offset t')"
    by auto
  from appendInt2_split[OF _ _ _ _ r4] v have mi: "Minute t = Minute t'"
    and r5: "appendInt (Second t) 2 @ zone_suffix (Offset t)
     = appendInt (Second t') 2 @ zone_suffix (Offset t')"
    by auto
  from appendInt2_split[OF _ _ _ _ r5] v have se: "Second t = Second t'"
    and r6: "zone_suffix (Offset t) = zone_suffix (Offset t')"
    by auto
  from zone_suffix_inj[OF _ _ r6] v have "zone_shown (Offset t) = zone_shown (Offset t')" by auto
  with y mo d h mi se show ?thesis by (simp add: to_second_def)
qed

lemma Format_RFC3339_to_second:
  "to_second t = to_second t' \<Longrightarrow> Format_RFC3339 t = Format_RFC3339 t'"
  by (auto simp: to_second_def Format_RFC3339_def zone_shown_def zone_suffix_def split: if_splits)


text \<open>
  C5 (as stated). Two modification times of the same artifact that differ, here by one
  nanosecond, give the same timestamp entity tag: \<^verbatim>\<open>time.RFC3339\<close> prints whole
  seconds.
\<close>

theorem etag_subsecond_counterexample:
  "t0 \<noteq> t1 \<and> timestamp_etag ''/media/pic'' t0 = timestamp_etag ''/media/pic'' t1"
  by (simp add: t0_def t1_def timestamp_etag_def Format_RFC3339_def)

text \<open>
  C5 (amended). For one request path, the timestamp entity tags of two modification times
  are equal exactly when the times agree in what \<^verbatim>\<open>time.RFC3339\<close> shows: year, month,
  day, hour, minute, second and zone offset in minutes. So the tag of an unchanged time
  is the same at every computation, times that differ in a shown field give different
  tags, and times that differ below the second give the same tag.
\<close>

theorem etag_equal_iff_same_second:
  assumes "valid_time t" and "valid_time t'"
  shows "(timestamp_etag uri t = timestamp_etag uri t') = (to_second t = to_second t')"
  using assms Format_RFC3339_inj[of t t'] Format_RFC3339_to_second[of t t']
  by (auto simp: timestamp_etag_def)

theorem etag_equal_iff_same_second_witness:
  "valid_time t0 \<and> valid_time t2
   \<and> timestamp_etag ''/media/pic'' t0 \<noteq> timestamp_etag ''/media/pic'' t2"
proof -
  have v0: "valid_time t0" and v2: "valid_time t2"
    by (simp_all add: valid_time_def t0_def t2_def)
  have "to_second t0 \<noteq> to_second t2"
    by (simp add: to_second_def t0_def t2_def)
  with etag_equal_iff_same_second [OF v0 v2, of "''/media/pic''"] v0 v2 show ?thesis by simp
qed

subsection \<open>Writing a body of declared length\<close>

lemma WriteHeader_fresh_fields:
  "\<not> wroteHeader w \<Longrightarrow> go_get (header w) ''Content-Length'' = Sprintf_d (int n) \<Longrightarrow> contentLength w = None
    \<Longrightarrow> contentLength (WriteHeader code w) = None \<or> contentLength (WriteHeader code w) = Some n"
  by (auto simp: WriteHeader_def Let_def ParseInt_Sprintf_d split: option.splits if_splits)

lemma Write_declared:
  assumes "\<not> wroteHeader w" "go_get (header w) ''Content-Length'' = Sprintf_d (int (length d))"
    "contentLength w = None" "written w = 0" "req_method w \<noteq> ''HEAD''"
  shows "body (fst (Write d w)) = body w @ d"
  using assms WriteHeader_fresh_fields[OF assms(1,2,3), of 200]
  by (auto simp: Write_def Let_def bodyAllowedForStatus_def)

subsection \<open>The handlers, case by case\<close>


lemma avatar_not_modified:
  assumes "Method r = ''GET'' \<or> Method r = ''HEAD''"
    and "go_get (Vars r) ''name'' = name" "name \<noteq> []"
    and "txt = filepath_Join [Root c, name @ ''.txt'']"
    and "png = filepath_Join [Root c, name @ ''.png'']"
    and "FileExists (fs 0) txt"
    and "etag = (case os_Stat (fs 1) png of Some fi \<Rightarrow> timestamp_etag (RequestURI r) (ModTime fi)
                 | None \<Rightarrow> name_etag (RequestURI r))"
    and "w = serve (AvatarHandler env c fs) r"
  shows "(status w = 304) = sublist etag (go_get (Header r) ''If-None-Match'')"
    and "sublist etag (go_get (Header r) ''If-None-Match'') \<Longrightarrow>
           body w = [] \<and> calls w = [FsExists txt, FsStat png]"
  using assms
  by (auto simp: serve_def AvatarHandler_def Let_def case_prod_beta io_Copy_committed split: option.splits)

lemma avatar_unregistered:
  assumes "Method r = ''GET'' \<or> Method r = ''HEAD''"
    and "go_get (Vars r) ''name'' = name" "name \<noteq> []"
    and "\<not> FileExists (fs 0) (filepath_Join [Root c, name @ ''.txt''])"
  shows "status (serve (AvatarHandler env c fs) r) = 404"
    and "calls (serve (AvatarHandler env c fs) r) = [FsExists (filepath_Join [Root c, name @ ''.txt''])]"
  using assms by (auto simp: serve_def AvatarHandler_def Let_def)

lemma avatar_generated:
  assumes "Method r = ''GET'' \<or> Method r = ''HEAD''"
    and "go_get (Vars r) ''name'' = name" "name \<noteq> []"
    and "FileExists (fs 0) (filepath_Join [Root c, name @ ''.txt''])"
    and "os_Stat (fs 1) (filepath_Join [Root c, name @ ''.png'']) = None"
    and "\<not> sublist (name_etag (RequestURI r)) (go_get (Header r) ''If-None-Match'')"
    and "buf = png_Encode env (Identicon env name (avatarResolution env) 12)"
    and "w = serve (AvatarHandler env c fs) r"
  shows "status w = 200" 
    and "sent w ''Etag'' = Some (name_etag (RequestURI r))"
    and "sent w ''Content-Type'' = Some ''image/png''"
    and "sent w ''Content-Length'' = Some (Sprintf_d (int (length buf)))"
    and "body w = (if Method r = ''GET'' then buf else [])"
    and "Generated name \<in> set (calls w)"
  using assms
  by (auto simp: serve_def AvatarHandler_def Let_def Write_declared)

lemma avatar_cache_control:
  assumes "Method r = ''GET'' \<or> Method r = ''HEAD''"
  shows "sent (serve (AvatarHandler env c fs) r) ''Cache-Control'' = Some ''public, no-cache, must-revalidate''"
  using assms
  by (auto simp: serve_def AvatarHandler_def Let_def case_prod_beta io_Copy_committed split: option.splits)

lemma media_cache_control:
  assumes "Method r = ''GET'' \<or> Method r = ''HEAD''"
    and "go_get (Vars r) ''name'' = name" "name \<noteq> []"
    and "fn = filepath_Join [Root c, mediaDir env, name @ ''.png'']"
    and "FileExists (fs 0) fn" "os_Stat (fs 1) fn = Some fi"
    and "\<not> sublist (timestamp_etag (RequestURI r) (ModTime fi)) (go_get (Header r) ''If-None-Match'')"
    and "os_Open (fs 2) fn = Some f"
    and "Method r = ''HEAD'' \<or> keeps_header (ServeContent env r (filepath_Base fn) (ModTime fi) f) ''Cache-Control''"
  shows "sent (serve (MediaHandler env c fs) r) ''Cache-Control'' = Some ''public, max-age=7776000''"
proof (cases "Method r = ''HEAD''")
  case True
  then show ?thesis using assms by (simp add: serve_def MediaHandler_def Let_def)
next
  case False
  with assms have k: "keeps_header (ServeContent env r (filepath_Base fn) (ModTime fi) f) ''Cache-Control''"
    and g: "Method r = ''GET''" by auto
  let ?w = "call (Streamed fn) (Header_Set ''Cache-Control'' ''public, max-age=7776000''
      (Header_Set ''Etag'' (timestamp_etag (RequestURI r) (ModTime fi))
        (call (FsOpen fn) (call (FsStat fn) (call (FsExists fn)
          (Header_Set ''Content-Type'' ''image/png'' (Header_Set ''Content-Type'' ''text/plain'' (new_response r))))))))"
  let ?w' = "ServeContent env r (filepath_Base fn) (ModTime fi) f ?w"
  have "response_headers ?w' ''Cache-Control'' = response_headers ?w ''Cache-Control''"
    using k unfolding keeps_header_def by blast
  then have *: "response_headers ?w' ''Cache-Control'' = Some ''public, max-age=7776000''" by simp
  have "serve (MediaHandler env c fs) r = finishRequest (http_Error (library (ServeContent env r (filepath_Base fn) (ModTime fi) f) ?w) ''Method Not Allowed'' 405)"
    using assms g by (simp add: serve_def MediaHandler_def Let_def)
  then show ?thesis using * by (auto simp: response_headers_def)
qed

lemma std_ServeContent_keeps: "keeps_header (std_ServeContent fmt r n t f) ''Cache-Control''"
proof -
  have "response_headers (std_ServeContent fmt r n t f w) ''Cache-Control''
          = response_headers w ''Cache-Control''" for w
  proof (cases "wroteHeader w")
    case True
    then have "response_headers w = sent w" by (simp add: response_headers_def)
    with True show ?thesis by (simp add: std_ServeContent_def Let_def writeNotModified_def)
  next
    case False
    then have "response_headers w = header w" by (simp add: response_headers_def)
    with False show ?thesis by (simp add: std_ServeContent_def Let_def writeNotModified_def)
  qed
  then show ?thesis by (simp add: keeps_header_def)
qed

lemma first_lookup:
  assumes "Method r = ''GET'' \<or> Method r = ''HEAD''"
    and "go_get (Vars r) ''name'' = name" and "name \<noteq> []"
  shows "take 1 (calls (serve (FeedHandler env c fs) r)) = [FsExists (filepath_Join [Root c, name @ ''.txt''])]
       \<and> take 1 (calls (serve (MediaHandler env c fs) r)) = [FsExists (filepath_Join [Root c, mediaDir env, name @ ''.png''])]
       \<and> take 1 (calls (serve (AvatarHandler env c fs) r)) = [FsExists (filepath_Join [Root c, name @ ''.txt''])]"
  using assms
  by (auto simp: serve_def FeedHandler_def MediaHandler_def AvatarHandler_def Let_def case_prod_beta
      split: option.splits)

lemma message_page_fresh:
  assumes "Method r = ''POST''" "Execute env ''message'' (MessageCtx title msg) = (out, failed)"
  shows "body (finishRequest (message_page env (new_response r) code title msg))
           = out @ (if failed then ''Internal Server Error'' @ [CHR 0x0A] else [])"
proof -
  let ?w = "new_response r"
  have p: "contentLength ?w = None" "go_get (header ?w) ''Content-Length'' = []"
    "wroteHeader ?w \<longrightarrow> bodyAllowedForStatus (status ?w)" "req_method ?w \<noteq> ''HEAD''"
    using assms(1) by simp_all
  note rb = render_body[OF p, of env "''message''" "MessageCtx title msg"]
  let ?w2 = "fst (render env ''message'' (MessageCtx title msg) ?w)"
  have wb: "wroteHeader ?w2 \<longrightarrow> bodyAllowedForStatus (status ?w2)"
    using rb(6) rb(3) by (auto simp: response_status_def bodyAllowedForStatus_def split: if_splits)
  have nh2: "req_method ?w2 \<noteq> ''HEAD''" using assms(1) by simp
  note eb = http_Error_body_committed[OF rb(4) rb(5) wb nh2, of 500 "''Internal Server Error''"]
  show ?thesis
    using rb(1,2) eb assms(2)
    by (simp add: message_page_def renderMessage_def case_prod_beta bodyAllowedForStatus_def)
qed

subsection \<open>Content negotiation\<close>

lemma best_range_mem: "best_range rs = Some x \<Longrightarrow> x \<in> set rs"
  by (induction rs arbitrary: x) (auto split: option.splits if_splits)

lemma best_accepted: "best_range (parse_accept h) = Some (t, q) \<Longrightarrow> 0 < q \<Longrightarrow> accepts h t"
  by (auto simp: accepts_def list_ex_iff dest!: best_range_mem)

section \<open>The claims\<close>

subsection \<open>An empty name\<close>

text \<open>
  C10. A GET or HEAD request to the feed, media or avatar handler whose name variable is
  empty is answered 400 Bad Request, and the handler has made no call on the store (nor
  any other collaborator call) by then: the record of calls is empty. The body is the
  text of the error for GET and nothing for HEAD.
\<close>

theorem empty_name_bad_request:
  assumes "Method r = ''GET'' \<or> Method r = ''HEAD''"
    and "go_get (Vars r) ''name'' = []"
    and "h \<in> {FeedHandler env c fs, MediaHandler env c fs, AvatarHandler env c fs}"
  shows "status (serve h r) = 400 \<and> calls (serve h r) = []
         \<and> body (serve h r) = (if Method r = ''GET'' then ''Bad Request'' @ [CHR 0x0A] else [])"
  using assms
  by (auto simp: serve_def FeedHandler_def MediaHandler_def AvatarHandler_def http_Error_body
      go_get_def bodyAllowedForStatus_def)

theorem empty_name_bad_request_witness:
  "status (serve (AvatarHandler env0 conf0 fs0) (request0 ''GET'' ''/avatar/'' [] Map.empty)) = 400
   \<and> calls (serve (AvatarHandler env0 conf0 fs0) (request0 ''GET'' ''/avatar/'' [] Map.empty)) = []
   \<and> body (serve (AvatarHandler env0 conf0 fs0) (request0 ''GET'' ''/avatar/'' [] Map.empty))
       = ''Bad Request'' @ [CHR 0x0A]"
  using empty_name_bad_request [of "request0 ''GET'' ''/avatar/'' [] Map.empty"
      "AvatarHandler env0 conf0 fs0" env0 conf0 fs0]
  by (simp add: request0_def go_get_def)

subsection \<open>HEAD and GET\<close>

text \<open>
  C2. A HEAD request does not get the headers of the GET request for the same resource
  in the same state. For the avatar of a feed with a custom image, \<^verbatim>\<open>AvatarHandler\<close>
  returns for HEAD right after setting \<^verbatim>\<open>Etag\<close>, before the file is opened and
  \<^verbatim>\<open>Content-Length\<close> is set; the second test of the method, after \<^verbatim>\<open>Content-Length\<close>,
  is never reached by a HEAD. On the sample store the GET response carries
  \<^verbatim>\<open>Content-Length: 3\<close> and the HEAD response carries none.
\<close>

theorem head_get_content_length_differ:
  "sent (serve (AvatarHandler env0 conf0 fs0) (request0 ''GET'' ''/avatar/alice'' ''alice'' Map.empty))
     ''Content-Length'' = Some ''3''
   \<and> sent (serve (AvatarHandler env0 conf0 fs0) (request0 ''HEAD'' ''/avatar/alice'' ''alice'' Map.empty))
     ''Content-Length'' = None"
  by code_simp

subsection \<open>Names and the store\<close>

text \<open>
  C3 (as stated). A name with a parent-directory sequence and a path separator is not
  rejected: for the name \<^verbatim>\<open>../secret\<close> the feed handler asks the store for
  \<^verbatim>\<open>/secret.txt\<close>, outside the root \<^verbatim>\<open>/data\<close>, and answers 200 with the headers of that
  file; for the name \<^verbatim>\<open>a..b\<close> the avatar handler asks the store for \<^verbatim>\<open>/data/a..b.txt\<close>.
\<close>

theorem traversal_name_counterexample:
  "calls (serve (FeedHandler env0 conf0 fs0) (request0 ''HEAD'' ''/../secret.txt'' ''../secret'' Map.empty))
     = [FsExists ''/secret.txt'', FsStat ''/secret.txt'']
   \<and> status (serve (FeedHandler env0 conf0 fs0) (request0 ''HEAD'' ''/../secret.txt'' ''../secret'' Map.empty)) = 200
   \<and> calls (serve (AvatarHandler env0 conf0 fs0) (request0 ''GET'' ''/avatar/a..b'' ''a..b'' Map.empty))
     = [FsExists ''/data/a..b.txt'']"
  by code_simp

text \<open>
  C3 (amended). The handlers reject the empty name only. For a GET or HEAD request with
  any non-empty name, whatever its characters, the first call of the feed, media and
  avatar handlers is the lookup in the store of the path joined from the root and the
  name.
\<close>

theorem nonempty_name_reaches_store:
  assumes "Method r = ''GET'' \<or> Method r = ''HEAD''"
    and "go_get (Vars r) ''name'' = name" and "name \<noteq> []"
  shows "take 1 (calls (serve (FeedHandler env c fs) r))
           = [FsExists (filepath_Join [Root c, name @ ''.txt''])]
       \<and> take 1 (calls (serve (MediaHandler env c fs) r))
           = [FsExists (filepath_Join [Root c, mediaDir env, name @ ''.png''])]
       \<and> take 1 (calls (serve (AvatarHandler env c fs) r))
           = [FsExists (filepath_Join [Root c, name @ ''.txt''])]"
  using assms by (rule first_lookup)

theorem nonempty_name_reaches_store_witness:
  "''x/y'' \<noteq> []
   \<and> take 1 (calls (serve (MediaHandler env0 conf0 fs0) (request0 ''GET'' ''/media/x/y'' ''x/y'' Map.empty)))
       = [FsExists ''/data/media/x/y.png'']"
proof -
  have j: "filepath_Join [Root conf0, mediaDir env0, ''x/y'' @ ''.png''] = ''/data/media/x/y.png''"
    by code_simp
  have n: "go_get (Vars (request0 ''GET'' ''/media/x/y'' ''x/y'' Map.empty)) ''name'' = ''x/y''"
    by (simp add: request0_def)
  have m: "Method (request0 ''GET'' ''/media/x/y'' ''x/y'' Map.empty) = ''GET''
           \<or> Method (request0 ''GET'' ''/media/x/y'' ''x/y'' Map.empty) = ''HEAD''"
    by (simp add: request0_def)
  from nonempty_name_reaches_store [OF m n, where env = env0 and c = conf0 and fs = fs0] j
  show ?thesis by simp
qed

subsection \<open>Conditional requests\<close>




subsection \<open>Avatars\<close>

text \<open>
  C6. For a GET or HEAD request to the avatar handler with a non-empty name:
  \<^item> if no feed text is stored under the name, the response is 404 and the lookup of the
    feed text is the only call made: an image stored under the name is not looked at;
  \<^item> if the feed text is there and no custom image is, the response is 200 with type
    \<^verbatim>\<open>image/png\<close>, the name-only tag \<^verbatim>\<open>W/"<RequestURI>"\<close>, the length of the generated image,
    and for GET the body \<^verbatim>\<open>png.Encode(cameron.Identicon([]byte(name), avatarResolution, 12))\<close>:
    the bytes are a function of the name alone, the same at every invocation;
  \<^item> unless the request carries that tag in \<^verbatim>\<open>If-None-Match\<close>: that one is answered 304
    with no body.
\<close>

theorem avatar_resolution:
  assumes "Method r = ''GET'' \<or> Method r = ''HEAD''"
    and "go_get (Vars r) ''name'' = name" and "name \<noteq> []"
    and "txt = filepath_Join [Root c, name @ ''.txt'']"
    and "png = filepath_Join [Root c, name @ ''.png'']"
    and "buf = png_Encode env (Identicon env name (avatarResolution env) 12)"
    and "w = serve (AvatarHandler env c fs) r"
  shows "(\<not> FileExists (fs 0) txt \<longrightarrow> status w = 404 \<and> calls w = [FsExists txt])
       \<and> (FileExists (fs 0) txt \<and> os_Stat (fs 1) png = None
            \<and> \<not> sublist (name_etag (RequestURI r)) (go_get (Header r) ''If-None-Match'')
          \<longrightarrow> status w = 200
              \<and> sent w ''Content-Type'' = Some ''image/png''
              \<and> sent w ''Etag'' = Some (name_etag (RequestURI r))
              \<and> sent w ''Content-Length'' = Some (Sprintf_d (int (length buf)))
              \<and> body w = (if Method r = ''GET'' then buf else [])
              \<and> Generated name \<in> set (calls w))
       \<and> (FileExists (fs 0) txt \<and> os_Stat (fs 1) png = None
            \<and> sublist (name_etag (RequestURI r)) (go_get (Header r) ''If-None-Match'')
          \<longrightarrow> status w = 304 \<and> body w = [])"
  using avatar_unregistered [OF assms(1,2,3), where c = c and fs = fs and env = env]
    avatar_generated [OF assms(1,2,3) _ _ _ assms(6,7)]
    avatar_not_modified [OF assms(1,2,3,4,5) _ refl assms(7)] assms(4,5,7)
  by auto

theorem avatar_resolution_witness:
  "\<not> FileExists (fs0 0) ''/data/carol.txt'' \<and> FileExists (fs0 0) ''/data/carol.png''
   \<and> status (serve (AvatarHandler env0 conf0 fs0) (request0 ''GET'' ''/avatar/carol'' ''carol'' Map.empty)) = 404
   \<and> FileExists (fs0 0) ''/data/bob.txt'' \<and> os_Stat (fs0 1) ''/data/bob.png'' = None
   \<and> body (serve (AvatarHandler env0 conf0 fs0) (request0 ''GET'' ''/avatar/bob'' ''bob'' Map.empty))
       = png_Encode env0 (Identicon env0 ''bob'' (avatarResolution env0) 12)
   \<and> sent (serve (AvatarHandler env0 conf0 fs0) (request0 ''GET'' ''/avatar/bob'' ''bob'' Map.empty)) ''Etag''
       = Some tag_bob
   \<and> status (serve (AvatarHandler env0 conf0 fs0)
        (request0 ''GET'' ''/avatar/bob'' ''bob'' [''If-None-Match'' \<mapsto> tag_bob])) = 304"
proof -
  let ?rc = "request0 ''GET'' ''/avatar/carol'' ''carol'' Map.empty"
  let ?rb = "request0 ''GET'' ''/avatar/bob'' ''bob'' Map.empty"
  let ?rn = "request0 ''GET'' ''/avatar/bob'' ''bob'' [''If-None-Match'' \<mapsto> tag_bob]"
  have mc: "Method ?rc = ''GET'' \<or> Method ?rc = ''HEAD''" and mb: "Method ?rb = ''GET'' \<or> Method ?rb = ''HEAD''"
    and mn: "Method ?rn = ''GET'' \<or> Method ?rn = ''HEAD''"
    by (simp_all add: request0_def)
  have nc: "go_get (Vars ?rc) ''name'' = ''carol''" and nb: "go_get (Vars ?rb) ''name'' = ''bob''"
    and nn: "go_get (Vars ?rn) ''name'' = ''bob''"
    by (simp_all add: request0_def)
  have j: "filepath_Join [Root conf0, ''carol'' @ ''.txt''] = ''/data/carol.txt''"
    "filepath_Join [Root conf0, ''bob'' @ ''.txt''] = ''/data/bob.txt''"
    "filepath_Join [Root conf0, ''bob'' @ ''.png''] = ''/data/bob.png''"
    by code_simp+
  have f: "\<not> FileExists (fs0 0) ''/data/carol.txt''" "FileExists (fs0 0) ''/data/carol.png''"
    "FileExists (fs0 0) ''/data/bob.txt''" "os_Stat (fs0 1) ''/data/bob.png'' = None"
    by code_simp+
  have g: "Method ?rb = ''GET''" "go_get (Header ?rb) ''If-None-Match'' = []"
    "go_get (Header ?rn) ''If-None-Match'' = tag_bob"
    "RequestURI ?rb = ''/avatar/bob''" "RequestURI ?rn = ''/avatar/bob''"
    by (simp_all add: request0_def)
  have t: "\<not> sublist (name_etag ''/avatar/bob'') []" "sublist (name_etag ''/avatar/bob'') tag_bob"
    "name_etag ''/avatar/bob'' = tag_bob"
    by (simp_all add: name_etag_def tag_bob_def)
  from avatar_resolution [OF mc nc _ refl refl refl refl, where c = conf0 and env = env0 and fs = fs0]
    avatar_resolution [OF mb nb _ refl refl refl refl, where c = conf0 and env = env0 and fs = fs0]
    avatar_resolution [OF mn nn _ refl refl refl refl, where c = conf0 and env = env0 and fs = fs0]
    j f g t
  show ?thesis by simp
qed

subsection \<open>Cache-Control\<close>

text \<open>
  C8 (as stated). The freshness lifetime of a media response is 7776000 seconds (90
  days): millions of seconds, below ten million.
\<close>

theorem max_age_counterexample:
  "sent (serve (MediaHandler env0 conf0 fs0) (request0 ''HEAD'' ''/media/pic'' ''pic'' Map.empty))
     ''Cache-Control'' = Some ''public, max-age=7776000''
   \<and> max_age ''public, max-age=7776000'' = Some 7776000
   \<and> \<not> (10000000 \<le> (7776000::nat))"
proof -
  have "sent (serve (MediaHandler env0 conf0 fs0) (request0 ''HEAD'' ''/media/pic'' ''pic'' Map.empty))
     ''Cache-Control'' = Some ''public, max-age=7776000''"
    by code_simp
  moreover have "max_age ''public, max-age=7776000'' = Some 7776000"
    by (simp add: max_age_def ParseUint_def is_digit_def digit_val_def)
  ultimately show ?thesis by simp
qed

text \<open>
  C8 (amended). A media response that is not cut short (GET or HEAD, non-empty name, the
  file there and opened, the handler's \<^verbatim>\<open>If-None-Match\<close> test not met) carries
  \<^verbatim>\<open>Cache-Control: public, max-age=7776000\<close>, a fixed positive lifetime of 7776000
  seconds; for GET this is the header the handler has set when it calls
  \<^verbatim>\<open>http.ServeContent\<close>, which is to leave it as it is. Every response of the avatar
  handler to GET or HEAD carries \<^verbatim>\<open>Cache-Control: public, no-cache, must-revalidate\<close>.
\<close>

theorem cache_control_directives:
  assumes "Method r = ''GET'' \<or> Method r = ''HEAD''"
    and "go_get (Vars r) ''name'' = name"
    and "media = filepath_Join [Root c, mediaDir env, name @ ''.png'']"
  shows "(name \<noteq> [] \<and> FileExists (fs 0) media \<and> os_Stat (fs 1) media = Some fi
            \<and> \<not> sublist (timestamp_etag (RequestURI r) (ModTime fi)) (go_get (Header r) ''If-None-Match'')
            \<and> os_Open (fs 2) media = Some f
            \<and> (Method r = ''HEAD''
                \<or> keeps_header (ServeContent env r (filepath_Base media) (ModTime fi) f) ''Cache-Control'')
          \<longrightarrow> sent (serve (MediaHandler env c fs) r) ''Cache-Control'' = Some ''public, max-age=7776000'')
       \<and> max_age ''public, max-age=7776000'' = Some 7776000 \<and> (0::nat) < 7776000
       \<and> sent (serve (AvatarHandler env c fs) r) ''Cache-Control''
           = Some ''public, no-cache, must-revalidate''"
proof -
  have "max_age ''public, max-age=7776000'' = Some 7776000"
    by (simp add: max_age_def ParseUint_def is_digit_def digit_val_def)
  with media_cache_control [OF assms(1,2) _ assms(3), of fs fi f] avatar_cache_control [OF assms(1), of env c fs]
  show ?thesis by auto
qed

theorem cache_control_directives_witness:
  "keeps_header (ServeContent env0 (request0 ''GET'' ''/media/pic'' ''pic'' Map.empty)
       (filepath_Base ''/data/media/pic.png'') t0 file0) ''Cache-Control''
   \<and> sent (serve (MediaHandler env0 conf0 fs0) (request0 ''GET'' ''/media/pic'' ''pic'' Map.empty))
       ''Cache-Control'' = Some ''public, max-age=7776000''
   \<and> sent (serve (AvatarHandler env0 conf0 fs0) (request0 ''GET'' ''/media/pic'' ''pic'' Map.empty))
       ''Cache-Control'' = Some ''public, no-cache, must-revalidate''"
proof -
  let ?r = "request0 ''GET'' ''/media/pic'' ''pic'' Map.empty"
  have m: "Method ?r = ''GET'' \<or> Method ?r = ''HEAD''" by (simp add: request0_def)
  have n: "go_get (Vars ?r) ''name'' = ''pic''" by (simp add: request0_def)
  have h: "go_get (Header ?r) ''If-None-Match'' = []" by (simp add: request0_def)
  have j: "filepath_Join [Root conf0, mediaDir env0, ''pic'' @ ''.png''] = ''/data/media/pic.png''"
    by code_simp
  have e: "FileExists (fs0 0) ''/data/media/pic.png''"
    and s: "os_Stat (fs0 1) ''/data/media/pic.png'' = Some \<lparr>Size = 3, ModTime = t0\<rparr>"
    and p: "os_Open (fs0 2) ''/data/media/pic.png'' = Some file0"
    by code_simp+
  have k: "keeps_header (ServeContent env0 ?r (filepath_Base ''/data/media/pic.png'') t0 file0) ''Cache-Control''"
    by (simp add: env0_def std_ServeContent_keeps)
  from cache_control_directives [OF m n j [symmetric],
      where fs = fs0 and fi = "\<lparr>Size = 3, ModTime = t0\<rparr>" and f = file0]
    e s p k h
  show ?thesis by simp
qed

subsection \<open>The feed list\<close>

text \<open>
  C7 (as stated). A client that sends \<^verbatim>\<open>Accept: text/html, text/plain;q=0.1\<close> prefers
  \<^verbatim>\<open>text/html\<close>, and is sent the line-oriented listing as \<^verbatim>\<open>text/plain\<close>: the handler
  does not ask for the best-preferred type, it asks
  \<^verbatim>\<open>accept.PreferredContentTypeLike(r.Header, "text/plain")\<close>, which answers
  \<^verbatim>\<open>text/plain\<close> whenever the header accepts that type.
\<close>

theorem accepted_not_preferred_counterexample:
  "go_get (Header list2) ''Accept'' = ''text/html, text/plain;q=0.1''
   \<and> best_range (parse_accept ''text/html, text/plain;q=0.1'') = Some (''text/html'', 1000)
   \<and> sent (serve (FeedsHandler env0 conf0) list2) ''Content-Type'' = Some ''text/plain''
   \<and> body (serve (FeedsHandler env0 conf0) list2) = ''alice http://a.example/feed'' @ [CHR 0x0A]"
  by code_simp

text \<open>
  C7 (amended). For a GET or HEAD request to the feed list, \<open>plain\<close> being the handler's
  test \<^verbatim>\<open>accept.PreferredContentTypeLike(r.Header, "text/plain") == "text/plain"\<close>:
  \<^item> if \<open>plain\<close>, the response is 200 of type \<^verbatim>\<open>text/plain\<close> and the body of a GET is one
    line \<^verbatim>\<open>name url\<close> per feed (a HEAD has no body);
  \<^item> otherwise the type is \<^verbatim>\<open>text/html\<close> and the body of a GET is the output of the
    template \<^verbatim>\<open>feeds\<close> (followed by the text of the server error when the template
    fails; when it fails before any output, the response is the server error alone);
  \<^item> with the registry \<^verbatim>\<open>{"alice": "http://a.example/feed"}\<close> the body of a plain GET is
    the line \<^verbatim>\<open>alice http://a.example/feed\<close> and a newline;
  \<^item> with the library's negotiation, \<open>plain\<close> holds when \<^verbatim>\<open>text/plain\<close> is the client's
    best-preferred type (of quality above zero), and it holds as well whenever the
    \<^verbatim>\<open>Accept\<close> header accepts \<^verbatim>\<open>text/plain\<close>, whatever the client prefers.
\<close>

theorem feeds_negotiation:
  assumes "Method r = ''GET'' \<or> Method r = ''HEAD''"
    and "w = serve (FeedsHandler env c) r"
    and "plain = (PreferredContentTypeLike env (Header r) ''text/plain'' = ''text/plain'')"
    and "Execute env ''feeds'' (FeedsCtx ''Available twtxt feeds'' (GetFeeds c)) = (out, failed)"
  shows "(plain \<longrightarrow> sent w ''Content-Type'' = Some ''text/plain'' \<and> status w = 200
            \<and> body w = (if Method r = ''GET''
                         then concat (map (\<lambda>feed. Name feed @ '' '' @ URL feed @ [CHR 0x0A]) (GetFeeds c))
                         else []))
       \<and> (\<not> plain \<longrightarrow>
            (Method r = ''HEAD'' \<or> \<not> failed \<or> out \<noteq> []
               \<longrightarrow> sent w ''Content-Type'' = Some ''text/html'' \<and> status w = 200)
            \<and> body w = (if Method r = ''GET''
                         then out @ (if failed then ''Internal Server Error'' @ [CHR 0x0A] else [])
                         else []))
       \<and> (plain \<and> Method r = ''GET'' \<and> Feeds c = [(''alice'', ''http://a.example/feed'')]
            \<longrightarrow> body w = ''alice http://a.example/feed'' @ [CHR 0x0A])
       \<and> (PreferredContentTypeLike env = std_PreferredContentTypeLike
            \<and> best_range (parse_accept (go_get (Header r) ''Accept'')) = Some (''text/plain'', q) \<and> 0 < q
            \<longrightarrow> plain)
       \<and> (PreferredContentTypeLike env = std_PreferredContentTypeLike
            \<and> accepts (go_get (Header r) ''Accept'') ''text/plain''
            \<longrightarrow> plain)"
proof -
  let ?w0 = "Header_Set ''Content-Type'' ''text/plain'' (new_response r)"
  let ?w1 = "Header_Set ''Content-Type'' ''text/html'' (new_response r)"
  have p0: "contentLength ?w0 = None" "go_get (header ?w0) ''Content-Length'' = []"
    "wroteHeader ?w0 \<longrightarrow> bodyAllowedForStatus (status ?w0)" by simp_all
  have p1: "contentLength ?w1 = None" "go_get (header ?w1) ''Content-Length'' = []"
    "wroteHeader ?w1 \<longrightarrow> bodyAllowedForStatus (status ?w1)" by simp_all
  have plain_part: "plain \<Longrightarrow> sent w ''Content-Type'' = Some ''text/plain'' \<and> status w = 200
            \<and> body w = (if Method r = ''GET''
                         then concat (map (\<lambda>feed. Name feed @ '' '' @ URL feed @ [CHR 0x0A]) (GetFeeds c))
                         else [])"
    using assms(1-3) foldl_Write_body[OF p0, of "\<lambda>feed. Name feed @ '' '' @ URL feed @ [CHR 0x0A]" "GetFeeds c"]
    by (auto simp: serve_simps FeedsHandler_def WeAreFeedsHandler_def Let_def)
  have html_part: "\<not> plain \<Longrightarrow>
            (Method r = ''HEAD'' \<or> \<not> failed \<or> out \<noteq> []
               \<longrightarrow> sent w ''Content-Type'' = Some ''text/html'' \<and> status w = 200)
            \<and> body w = (if Method r = ''GET''
                         then out @ (if failed then ''Internal Server Error'' @ [CHR 0x0A] else [])
                         else [])"
  proof -
    assume np: "\<not> plain"
    show ?thesis
    proof (cases "Method r = ''GET''")
      case True
      then have nh: "req_method ?w1 \<noteq> ''HEAD''" by simp
      note rb = render_body[OF p1 nh, of env "''feeds''" "FeedsCtx ''Available twtxt feeds'' (GetFeeds c)"]
      let ?w2 = "fst (render env ''feeds'' (FeedsCtx ''Available twtxt feeds'' (GetFeeds c)) ?w1)"
      have wb: "wroteHeader ?w2 \<longrightarrow> bodyAllowedForStatus (status ?w2)"
        using rb(6) rb(3) by (auto simp: response_status_def bodyAllowedForStatus_def split: if_splits)
      have nh2: "req_method ?w2 \<noteq> ''HEAD''" using True by simp
      note eb = http_Error_body_committed[OF rb(4) rb(5) wb nh2, of 500 "''Internal Server Error''"]
      have w: "w = finishRequest (if failed then http_Error ?w2 ''Internal Server Error'' 500 else ?w2)"
        using True np assms(2-4) rb(2) by (simp add: serve_def FeedsHandler_def Let_def case_prod_beta)
      have b: "body w = out @ (if failed then ''Internal Server Error'' @ [CHR 0x0A] else [])"
        using w rb(1) eb assms(4) by (simp add: bodyAllowedForStatus_def)
      have rh: "response_headers ?w2 ''Content-Type'' = Some ''text/html''" by simp
      have h: "\<not> failed \<or> out \<noteq> [] \<Longrightarrow> sent w ''Content-Type'' = Some ''text/html'' \<and> status w = 200"
        using w rb(3,6) assms(4) rh[unfolded response_headers_def]
        by (auto simp: response_status_def split: if_splits)
      show ?thesis using True b h by auto
    next
      case False
      then show ?thesis using np assms(1-3)
        by (auto simp: serve_simps FeedsHandler_def Let_def)
    qed
  qed
  have ex: "plain \<and> Method r = ''GET'' \<and> Feeds c = [(''alice'', ''http://a.example/feed'')]
            \<Longrightarrow> body w = ''alice http://a.example/feed'' @ [CHR 0x0A]"
    using plain_part by (auto simp: GetFeeds_def)
  have acc: "PreferredContentTypeLike env = std_PreferredContentTypeLike
            \<and> accepts (go_get (Header r) ''Accept'') ''text/plain'' \<Longrightarrow> plain"
    using assms(3) by (simp add: std_PreferredContentTypeLike_def)
  have best: "PreferredContentTypeLike env = std_PreferredContentTypeLike
            \<and> best_range (parse_accept (go_get (Header r) ''Accept'')) = Some (''text/plain'', q) \<and> 0 < q
            \<Longrightarrow> plain"
    using acc best_accepted [of "go_get (Header r) ''Accept''" "''text/plain''" q] by blast
  from plain_part html_part ex acc best show ?thesis by blast
qed

theorem feeds_negotiation_witness:
  "PreferredContentTypeLike env0 = std_PreferredContentTypeLike
   \<and> best_range (parse_accept (go_get (Header list0) ''Accept'')) = Some (''text/plain'', 1000)
   \<and> Feeds conf0 = [(''alice'', ''http://a.example/feed'')]
   \<and> sent (serve (FeedsHandler env0 conf0) list0) ''Content-Type'' = Some ''text/plain''
   \<and> body (serve (FeedsHandler env0 conf0) list0) = ''alice http://a.example/feed'' @ [CHR 0x0A]
   \<and> PreferredContentTypeLike env0 (Header list1) ''text/plain'' \<noteq> ''text/plain''
   \<and> sent (serve (FeedsHandler env0 conf0) list1) ''Content-Type'' = Some ''text/html''
   \<and> body (serve (FeedsHandler env0 conf0) list1) = ''Available twtxt feeds''
   \<and> accepts (go_get (Header list2) ''Accept'') ''text/plain''
   \<and> sent (serve (FeedsHandler env0 conf0) list2) ''Content-Type'' = Some ''text/plain''"
proof -
  have m: "Method list0 = ''GET'' \<or> Method list0 = ''HEAD''" "Method list1 = ''GET'' \<or> Method list1 = ''HEAD''"
    "Method list2 = ''GET'' \<or> Method list2 = ''HEAD''"
    by (simp_all add: list0_def list1_def list2_def)
  have g: "Method list0 = ''GET''" "Method list1 = ''GET''" by (simp_all add: list0_def list1_def)
  have e: "PreferredContentTypeLike env0 = std_PreferredContentTypeLike" by (simp add: env0_def)
  have b: "best_range (parse_accept (go_get (Header list0) ''Accept'')) = Some (''text/plain'', 1000)"
    by code_simp
  have p: "PreferredContentTypeLike env0 (Header list1) ''text/plain'' \<noteq> ''text/plain''"
    by code_simp
  have a: "accepts (go_get (Header list2) ''Accept'') ''text/plain''"
    by code_simp
  have x: "Execute env0 ''feeds'' (FeedsCtx ''Available twtxt feeds'' (GetFeeds conf0))
             = (''Available twtxt feeds'', False)"
    by (simp add: env0_def)
  have f: "Feeds conf0 = [(''alice'', ''http://a.example/feed'')]" by (simp add: conf0_def)
  have z: "(0::nat) < 1000" by simp
  have l0: "sent (serve (FeedsHandler env0 conf0) list0) ''Content-Type'' = Some ''text/plain''
            \<and> body (serve (FeedsHandler env0 conf0) list0) = ''alice http://a.example/feed'' @ [CHR 0x0A]"
    using feeds_negotiation [OF m(1) refl refl x, where q = 1000] e b f g(1) z by blast
  have l1: "sent (serve (FeedsHandler env0 conf0) list1) ''Content-Type'' = Some ''text/html''
            \<and> body (serve (FeedsHandler env0 conf0) list1) = ''Available twtxt feeds''"
    using feeds_negotiation [OF m(2) refl refl x] p g(2) by simp
  have l2: "sent (serve (FeedsHandler env0 conf0) list2) ''Content-Type'' = Some ''text/plain''"
    using feeds_negotiation [OF m(3) refl refl x] e a by simp
  from l0 l1 l2 e b p a f show ?thesis by blast
qed

subsection \<open>Registration\<close>

text \<open>
  C1 (as stated). A registration whose persistence fails leaves the registry in memory
  changed: the new feed stays in it, the durable registry does not have it, and the
  status of the response is 200 (\<^verbatim>\<open>renderMessage\<close> does not use the status it is given).
\<close>

theorem persistence_failure_counterexample:
  "Feeds (fst (snd (IndexHandler env0 (Some ''disk full'') (conf0, Feeds conf0) (new_response post0) post0)))
     = [(''alice'', ''http://a.example/feed''), (''bob'', ''http://b.example/feed'')]
   \<and> Feeds (fst (snd (IndexHandler env0 (Some ''disk full'') (conf0, Feeds conf0) (new_response post0) post0)))
     \<noteq> Feeds conf0
   \<and> snd (snd (IndexHandler env0 (Some ''disk full'') (conf0, Feeds conf0) (new_response post0) post0))
     = [(''alice'', ''http://a.example/feed'')]
   \<and> status (finishRequest
        (fst (IndexHandler env0 (Some ''disk full'') (conf0, Feeds conf0) (new_response post0) post0))) = 200"
  by code_simp

text \<open>
  C1 (amended). For a registration request (POST):
  \<^item> when no URL is supplied, the URL gives no valid feed, or the name is registered
    already, the registry in memory and the durable registry are left as they were;
  \<^item> when persistence fails, the durable registry is left as it was, the registry in
    memory keeps the new entry (there is no roll-back), and the caller is shown the
    message \<^verbatim>\<open>Could not save feed: <error>\<close> under the title \<^verbatim>\<open>Error\<close>.
\<close>

theorem registration_failures:
  assumes "Method r = ''POST''"
    and "go_get (Form r) ''url'' = url"
    and "IndexHandler env disk (c, durable) (new_response r) r = (w, c', durable')"
  shows "(url = [] \<or> ValidateFeed env c url = None
            \<or> (\<exists>feed. ValidateFeed env c url = Some feed \<and> map_of (Feeds c) (Name feed) \<noteq> None)
          \<longrightarrow> c' = c \<and> durable' = durable)
       \<and> (url \<noteq> [] \<and> ValidateFeed env c url = Some feed \<and> map_of (Feeds c) (Name feed) = None
            \<and> disk = Some e
          \<longrightarrow> Feeds c' = AList.update (Name feed) (URL feed) (Feeds c) \<and> Root c' = Root c
              \<and> map_of (Feeds c') (Name feed) = Some (URL feed)
              \<and> durable' = durable
              \<and> (Execute env ''message'' (MessageCtx ''Error'' (''Could not save feed: '' @ e)) = (out, failed)
                    \<longrightarrow> body (finishRequest w)
                          = out @ (if failed then ''Internal Server Error'' @ [CHR 0x0A] else [])))"
  using assms message_page_fresh[OF assms(1), of env "''Error''" "''Could not save feed: '' @ e"]
  by (auto simp: IndexHandler_def Let_def Save_def update_conv split: option.splits if_splits)

theorem registration_failures_witness:
  "go_get (Form post0) ''url'' \<noteq> []
   \<and> ValidateFeed env0 conf0 (go_get (Form post0) ''url'')
       = Some \<lparr>Name = ''bob'', URL = ''http://b.example/feed''\<rparr>
   \<and> map_of (Feeds conf0) ''bob'' = None
   \<and> map_of (Feeds (fst (snd (IndexHandler env0 (Some ''disk full'') (conf0, Feeds conf0)
         (new_response post0) post0)))) ''bob'' = Some ''http://b.example/feed''
   \<and> snd (snd (IndexHandler env0 (Some ''disk full'') (conf0, Feeds conf0) (new_response post0) post0))
       = Feeds conf0
   \<and> body (finishRequest (fst (IndexHandler env0 (Some ''disk full'') (conf0, Feeds conf0)
         (new_response post0) post0))) = ''Error: Could not save feed: disk full''
   \<and> ValidateFeed env0 conf0 (go_get (Form post1) ''url'')
       = Some \<lparr>Name = ''alice'', URL = ''http://a.example/feed''\<rparr>
   \<and> map_of (Feeds conf0) ''alice'' \<noteq> None
   \<and> snd (IndexHandler env0 None (conf0, Feeds conf0) (new_response post1) post1) = (conf0, Feeds conf0)"
proof -
  obtain w c durable where
    eq: "IndexHandler env0 (Some ''disk full'') (conf0, Feeds conf0) (new_response post0) post0 = (w, c, durable)"
    by (cases "IndexHandler env0 (Some ''disk full'') (conf0, Feeds conf0) (new_response post0) post0") auto
  obtain w1 c1 durable1 where
    eq1: "IndexHandler env0 None (conf0, Feeds conf0) (new_response post1) post1 = (w1, c1, durable1)"
    by (cases "IndexHandler env0 None (conf0, Feeds conf0) (new_response post1) post1") auto
  have m: "Method post0 = ''POST''" "Method post1 = ''POST''" by (simp_all add: post0_def post1_def)
  have u: "go_get (Form post0) ''url'' = ''http://b.example/feed''"
    "go_get (Form post1) ''url'' = ''http://a.example/feed''"
    by (simp_all add: post0_def post1_def)
  have v: "ValidateFeed env0 conf0 ''http://b.example/feed'' = Some \<lparr>Name = ''bob'', URL = ''http://b.example/feed''\<rparr>"
    "ValidateFeed env0 conf0 ''http://a.example/feed'' = Some \<lparr>Name = ''alice'', URL = ''http://a.example/feed''\<rparr>"
    by (simp_all add: env0_def)
  have a: "map_of (Feeds conf0) ''bob'' = None" "map_of (Feeds conf0) ''alice'' \<noteq> None"
    by (simp_all add: conf0_def)
  have x: "Execute env0 ''message'' (MessageCtx ''Error'' (''Could not save feed: '' @ ''disk full''))
             = (''Error: Could not save feed: disk full'', False)"
    by (simp add: env0_def)
  have k: "\<exists>feed. ValidateFeed env0 conf0 ''http://a.example/feed'' = Some feed
                 \<and> map_of (Feeds conf0) (Name feed) \<noteq> None"
    using v(2) a(2) by simp
  have r0: "map_of (Feeds c) ''bob'' = Some ''http://b.example/feed'' \<and> durable = Feeds conf0
            \<and> body (finishRequest w) = ''Error: Could not save feed: disk full''"
    using registration_failures [OF m(1) u(1) eq,
      where feed = "\<lparr>Name = ''bob'', URL = ''http://b.example/feed''\<rparr>" and e = "''disk full''"
        and out = "''Error: Could not save feed: disk full''" and failed = False]
      u v a x
    by (simp add: update_conv')
  have r1: "c1 = conf0 \<and> durable1 = Feeds conf0"
    using registration_failures [OF m(2) u(2) eq1,
      where feed = "\<lparr>Name = ''alice'', URL = ''http://a.example/feed''\<rparr>" and e = "''disk full''"] k
    by blast
  from r0 r1 u v a show ?thesis by (simp add: eq eq1)
qed

end
